theory Spec2Isabelle
  imports Complex_Main
begin

section \<open>Numeric conventions\<close>

text \<open>
  The numeric kernels of \<^verbatim>\<open>uecpv/uec_.py\<close> work on numpy arrays of floats.  Floats
  are idealised as \<^typ>\<open>real\<close>; a one-dimensional array is a list, a two-dimensional
  array is a list of rows.  \<^verbatim>\<open>pow(x, y)\<close> on a positive base is \<open>x powr y\<close>.
\<close>

type_synonym vec = "real list"
type_synonym matrix = "real list list"

section \<open>Clamping and squared distance\<close>

text \<open>\<^verbatim>\<open>clip_clust(val)\<close>: clamp into the range -1.0 to 1.0.\<close>

definition clip_clust :: "real \<Rightarrow> real" where
  "clip_clust val = (if val > 1.0 then 1.0 else if val < -1.0 then -1.0 else val)"

text \<open>\<^verbatim>\<open>clip(val)\<close>: clamp into the range -4.0 to 4.0.\<close>

definition clip :: "real \<Rightarrow> real" where
  "clip val = (if val > 4.0 then 4.0 else if val < -4.0 then -4.0 else val)"

text \<open>\<^verbatim>\<open>rdist(x, y)\<close>: the loop runs over \<^verbatim>\<open>range(x.shape[0])\<close>.\<close>

definition rdist :: "vec \<Rightarrow> vec \<Rightarrow> real" where
  "rdist x y = foldl (\<lambda>result i. result + (x ! i - y ! i) ^ 2) 0.0 [0..<length x]"

section \<open>The gradient terms of \<^verbatim>\<open>optimize_layout\<close>\<close>

text \<open>
  The constants that \<^verbatim>\<open>optimize_layout\<close> fixes at its head: the epoch budget is
  overwritten with 10, and \<^verbatim>\<open>initial_etaCE\<close>, \<^verbatim>\<open>etaKL\<close>, \<^verbatim>\<open>alpha\<close>, \<^verbatim>\<open>beta\<close>
  are all 1.0.
\<close>

definition ol_n_epochs :: nat where "ol_n_epochs = 10"
definition initial_etaCE :: real where "initial_etaCE = 1.0"
definition etaKL :: real where "etaKL = 1.0"
definition ol_alpha :: real where "ol_alpha = 1.0"
definition ol_beta :: real where "ol_beta = 1.0"

text \<open>
  The rate \<^verbatim>\<open>etaCE\<close> in force while epoch \<open>n\<close> runs: 1.0 in the first epoch, then the value
  assigned at the end of the previous epoch,
  \<^verbatim>\<open>initial_etaCE * (1.0 - float(n) / float(n_epochs))\<close>.
\<close>

fun etaCE_at :: "nat \<Rightarrow> real" where
  "etaCE_at 0 = initial_etaCE"
| "etaCE_at (Suc n) = initial_etaCE * (1.0 - real n / real ol_n_epochs)"

text \<open>Attraction along a sampled edge: the coefficient and the clipped per-coordinate gradient.\<close>

definition attraction_grad_coeff :: "real \<Rightarrow> real \<Rightarrow> real \<Rightarrow> real" where
  "attraction_grad_coeff a b dist_squared =
     (if dist_squared > 0.0
      then (-2.0 * a * b * (dist_squared powr (b - 1.0))) / (a * (dist_squared powr b) + 1.0)
      else 0.0)"

definition attraction_grad_d :: "real \<Rightarrow> real \<Rightarrow> vec \<Rightarrow> vec \<Rightarrow> nat \<Rightarrow> real" where
  "attraction_grad_d a b current other d =
     clip (attraction_grad_coeff a b (rdist current other) * (current ! d - other ! d))"

text \<open>\<^verbatim>\<open>current[d] += grad_d * etaCE * alpha\<close>: the amount added to the coordinate.\<close>

definition attraction_update :: "real \<Rightarrow> real \<Rightarrow> real \<Rightarrow> vec \<Rightarrow> vec \<Rightarrow> nat \<Rightarrow> real" where
  "attraction_update etaCE a b current other d =
     attraction_grad_d a b current other d * etaCE * ol_alpha"

text \<open>\<^verbatim>\<open>other[d] += -grad_d * etaCE\<close>, done when \<^verbatim>\<open>move_other\<close> holds.\<close>

definition attraction_update_other :: "real \<Rightarrow> real \<Rightarrow> real \<Rightarrow> vec \<Rightarrow> vec \<Rightarrow> nat \<Rightarrow> real" where
  "attraction_update_other etaCE a b current other d =
     - attraction_grad_d a b current other d * etaCE"

text \<open>
  Negative sampling against the vertex \<open>k\<close> drawn for the head vertex \<open>j\<close>.  The
  \<^verbatim>\<open>continue\<close> of the branch \<^verbatim>\<open>elif j == k\<close> is the value \<open>None\<close>.
\<close>

definition negative_grad_coeff ::
  "real \<Rightarrow> real \<Rightarrow> real \<Rightarrow> nat \<Rightarrow> nat \<Rightarrow> real \<Rightarrow> real option" where
  "negative_grad_coeff gamma a b j k dist_squared =
     (if dist_squared > 0.0
      then Some ((2.0 * gamma * b) / ((0.001 + dist_squared) * (a * (dist_squared powr b) + 1)))
      else if j = k then None
      else Some 0.0)"

definition negative_grad_d :: "real \<Rightarrow> vec \<Rightarrow> vec \<Rightarrow> nat \<Rightarrow> real" where
  "negative_grad_d grad_coeff current other d =
     (if grad_coeff > 0.0 then clip (grad_coeff * (current ! d - other ! d)) else 4.0)"

text \<open>
  The per-coordinate gradient of one negative sample, \<open>None\<close> when the sample is skipped,
  and the amount \<^verbatim>\<open>grad_d * etaCE\<close> added to the coordinate.
\<close>

definition negative_sample_grad_d ::
  "real \<Rightarrow> real \<Rightarrow> real \<Rightarrow> nat \<Rightarrow> nat \<Rightarrow> vec \<Rightarrow> vec \<Rightarrow> nat \<Rightarrow> real option" where
  "negative_sample_grad_d gamma a b j k current other d =
     (case negative_grad_coeff gamma a b j k (rdist current other) of
        None \<Rightarrow> None
      | Some grad_coeff \<Rightarrow> Some (negative_grad_d grad_coeff current other d))"

definition negative_sample_update ::
  "real \<Rightarrow> real \<Rightarrow> real \<Rightarrow> real \<Rightarrow> nat \<Rightarrow> nat \<Rightarrow> vec \<Rightarrow> vec \<Rightarrow> nat \<Rightarrow> real option" where
  "negative_sample_update etaCE gamma a b j k current other d =
     (case negative_sample_grad_d gamma a b j k current other d of
        None \<Rightarrow> None
      | Some grad_d \<Rightarrow> Some (grad_d * etaCE))"

text \<open>
  The clustering term of a visited point against one centroid: the coefficient, its clamp by
  \<^verbatim>\<open>clip_clust\<close>, and the amount \<^verbatim>\<open>grad_coeff * beta * etaKL * 1e-5\<close> added to every
  coordinate of the point.
\<close>

definition cluster_grad_coeff :: "real \<Rightarrow> real \<Rightarrow> real \<Rightarrow> real" where
  "cluster_grad_coeff a b dist_squared =
     (if dist_squared > 0.0
      then (2.0 * a * b * (dist_squared powr (b - 1.0))) / (a * (dist_squared powr b) + 1.0)
      else 0.0)"

definition cluster_update :: "real \<Rightarrow> real \<Rightarrow> vec \<Rightarrow> vec \<Rightarrow> real" where
  "cluster_update a b current centroid =
     clip_clust (cluster_grad_coeff a b (rdist current centroid)) * ol_beta * etaKL * 0.00001"

text \<open>
  The centroid pass at the end of an epoch: for each point the amount
  \<^verbatim>\<open>(grad_coeff * etaKL) / (nn_sample * 100)\<close> is added to every coordinate of the centroid.
\<close>

definition centroid_grad_coeff :: "real \<Rightarrow> real \<Rightarrow> real \<Rightarrow> real" where
  "centroid_grad_coeff a b dist_squared =
     (if dist_squared > 0.0
      then (-2.0 * a * b * (dist_squared powr (b - 1.0))) / (a * (dist_squared powr b) + 1.0)
      else 0.0)"

definition centroid_update :: "real \<Rightarrow> real \<Rightarrow> nat \<Rightarrow> vec \<Rightarrow> vec \<Rightarrow> real" where
  "centroid_update a b nn_sample current centroid =
     (clip (centroid_grad_coeff a b (rdist current centroid)) * etaKL) / (real nn_sample * 100)"

section \<open>Soft assignment and target distribution\<close>

text \<open>
  \<^verbatim>\<open>q.shape[1]\<close>, \<^verbatim>\<open>q.sum(0)\<close> (column sums) and \<^verbatim>\<open>q.sum(1)\<close> (row sums) of a
  two-dimensional array.
\<close>

definition ncols :: "'a list list \<Rightarrow> nat" where
  "ncols q = (case q of [] \<Rightarrow> 0 | row # _ \<Rightarrow> length row)"

definition sum0 :: "matrix \<Rightarrow> vec" where
  "sum0 q = map (\<lambda>k. sum_list (map (\<lambda>row. row ! k) q)) [0..<ncols q]"

definition sum1 :: "matrix \<Rightarrow> vec" where
  "sum1 q = map sum_list q"

text \<open>
  \<^verbatim>\<open>S(embedding, centroids, a, b)\<close>:
  \<^verbatim>\<open>q[i,k] = pow((1.0 + a * pow(dist_squared, b)), -1.0)\<close>; the outer power with exponent
  -1.0 is the reciprocal.
\<close>

definition S :: "matrix \<Rightarrow> matrix \<Rightarrow> real \<Rightarrow> real \<Rightarrow> matrix" where
  "S embedding centroids a b =
     map (\<lambda>data. map (\<lambda>centroid. 1 / (1.0 + a * (rdist data centroid powr b))) centroids)
       embedding"

text \<open>
  \<^verbatim>\<open>T(q)\<close>: \<^verbatim>\<open>weight = q ** 2 / q.sum(0)\<close> divides entry \<open>(i, k)\<close> by the sum of column
  \<open>k\<close>; \<^verbatim>\<open>(weight.T / weight.sum(1)).T\<close> divides each row of \<^verbatim>\<open>weight\<close> by its sum.
\<close>

definition T_weight :: "matrix \<Rightarrow> matrix" where
  "T_weight q = map (\<lambda>row. map (\<lambda>k. (row ! k) ^ 2 / (sum0 q ! k)) [0..<ncols q]) q"

definition T :: "matrix \<Rightarrow> matrix" where
  "T q = (let weight = T_weight q
          in map (\<lambda>(row, s). map (\<lambda>w. w / s) row) (zip weight (sum1 weight)))"

text \<open>
  A soft-assignment matrix with \<open>c\<close> columns that has at least one row and one column and
  only positive entries, as \<^verbatim>\<open>S\<close> produces them.
\<close>

definition positive_matrix :: "matrix \<Rightarrow> nat \<Rightarrow> bool" where
  "positive_matrix q c \<longleftrightarrow>
     q \<noteq> [] \<and> 0 < c \<and> list_all (\<lambda>row. length row = c \<and> list_all (\<lambda>x. 0 < x) row) q"

section \<open>Membership strengths\<close>

text \<open>
  \<^verbatim>\<open>compute_membership_strengths(knn_indices, knn_dists, sigmas, rhos)\<close>.  The three
  output arrays \<^verbatim>\<open>rows\<close>, \<^verbatim>\<open>cols\<close>, \<^verbatim>\<open>vals\<close> start as zeros of length
  \<^verbatim>\<open>knn_indices.size\<close> and are threaded through the two nested loops as a triple.
\<close>

type_synonym coo = "int list \<times> int list \<times> real list"

text \<open>The value chosen for the slot \<open>(i, j)\<close> once the sentinel test has passed.\<close>

definition membership_val :: "int list list \<Rightarrow> matrix \<Rightarrow> vec \<Rightarrow> vec \<Rightarrow> nat \<Rightarrow> nat \<Rightarrow> real" where
  "membership_val knn_indices knn_dists sigmas rhos i j =
     (if knn_indices ! i ! j = int i then 0.0
      else if knn_dists ! i ! j - rhos ! i \<le> 0.0 then 1.0
      else exp (- ((knn_dists ! i ! j - rhos ! i) / (sigmas ! i))))"

text \<open>The body of the inner loop; \<^verbatim>\<open>continue\<close> leaves the three arrays as they are.\<close>

definition cms_body ::
  "int list list \<Rightarrow> matrix \<Rightarrow> vec \<Rightarrow> vec \<Rightarrow> nat \<Rightarrow> nat \<Rightarrow> coo \<Rightarrow> nat \<Rightarrow> coo" where
  "cms_body knn_indices knn_dists sigmas rhos n_neighbors i st j =
     (case st of (rows, cols, vals) \<Rightarrow>
        if knn_indices ! i ! j = - 1 then (rows, cols, vals)
        else
          let val = membership_val knn_indices knn_dists sigmas rhos i j
          in (rows[i * n_neighbors + j := int i],
              cols[i * n_neighbors + j := knn_indices ! i ! j],
              vals[i * n_neighbors + j := val]))"

definition compute_membership_strengths ::
  "int list list \<Rightarrow> matrix \<Rightarrow> vec \<Rightarrow> vec \<Rightarrow> coo" where
  "compute_membership_strengths knn_indices knn_dists sigmas rhos =
     (let n_samples = length knn_indices;
          n_neighbors = ncols knn_indices;
          size = n_samples * n_neighbors;
          rows = replicate size 0;
          cols = replicate size 0;
          vals = replicate size 0.0
      in foldl (\<lambda>st i.
                  foldl (cms_body knn_indices knn_dists sigmas rhos n_neighbors i) st
                    [0..<n_neighbors])
           (rows, cols, vals) [0..<n_samples])"

text \<open>Reading the three arrays at one slot, and their common length.\<close>

definition slot :: "coo \<Rightarrow> nat \<Rightarrow> int \<times> int \<times> real" where
  "slot st s = (case st of (rows, cols, vals) \<Rightarrow> (rows ! s, cols ! s, vals ! s))"

definition coo_size :: "coo \<Rightarrow> nat \<Rightarrow> bool" where
  "coo_size st n \<longleftrightarrow>
     (case st of (rows, cols, vals) \<Rightarrow> length rows = n \<and> length cols = n \<and> length vals = n)"

section \<open>Smooth kNN calibration\<close>

definition SMOOTH_K_TOLERANCE :: real where "SMOOTH_K_TOLERANCE = 0.00001"
definition MIN_K_DIST_SCALE :: real where "MIN_K_DIST_SCALE = 0.001"

text \<open>
  \<^verbatim>\<open>np.mean\<close> of a row and of the whole two-dimensional array (the mean of all its
  entries).
\<close>

definition mean :: "vec \<Rightarrow> real" where
  "mean xs = sum_list xs / real (length xs)"

definition mean2 :: "matrix \<Rightarrow> real" where
  "mean2 m = sum_list (concat m) / real (length (concat m))"

text \<open>
  The local connectivity radius of one row.  \<^verbatim>\<open>rho[i]\<close> keeps its initial 0.0 when
  neither branch assigns it.  The function is compiled without bounds checks, so a read past
  the end of \<^verbatim>\<open>non_zero_dists\<close> yields an unspecified number, as \<open>!\<close> does.
\<close>

definition rho_of :: "vec \<Rightarrow> real \<Rightarrow> real" where
  "rho_of ith_distances local_connectivity =
     (let non_zero_dists = filter (\<lambda>d. d > 0.0) ith_distances
      in if real (length non_zero_dists) \<ge> local_connectivity
         then
           (let index = \<lfloor>local_connectivity\<rfloor>;
                interpolation = local_connectivity - real_of_int index
            in if index > 0
               then
                 (let r = non_zero_dists ! nat (index - 1)
                  in if interpolation > SMOOTH_K_TOLERANCE
                     then r + interpolation *
                            (non_zero_dists ! nat index - non_zero_dists ! nat (index - 1))
                     else r)
               else interpolation * non_zero_dists ! 0)
         else if length non_zero_dists > 0 then Max (set non_zero_dists)
         else 0.0)"

text \<open>The sum \<^verbatim>\<open>psum\<close> over the columns \<^verbatim>\<open>range(1, distances.shape[1])\<close> for a bandwidth.\<close>

definition psum_of :: "vec \<Rightarrow> real \<Rightarrow> real \<Rightarrow> real" where
  "psum_of ith_distances rho mid =
     foldl (\<lambda>psum j.
              let d = ith_distances ! j - rho
              in if d > 0 then psum + exp (- (d / mid)) else psum + 1.0)
       0.0 [1..<length ith_distances]"

text \<open>
  The bounded binary search \<^verbatim>\<open>for n in range(n_iter)\<close> on the state \<open>(lo, hi, mid)\<close>; the
  upper bound \<^verbatim>\<open>NPY_INFINITY\<close> is \<open>None\<close>.  The result is the final \<^verbatim>\<open>mid\<close>, after the
  \<^verbatim>\<open>break\<close> or after the last iteration.
\<close>

fun sigma_search :: "nat \<Rightarrow> (real \<Rightarrow> real) \<Rightarrow> real \<Rightarrow> real \<Rightarrow> real option \<Rightarrow> real \<Rightarrow> real" where
  "sigma_search 0 psum target lo hi mid = mid"
| "sigma_search (Suc n) psum target lo hi mid =
     (if \<bar>psum mid - target\<bar> < SMOOTH_K_TOLERANCE then mid
      else if psum mid > target then sigma_search n psum target lo (Some mid) ((lo + mid) / 2.0)
      else (case hi of
              None \<Rightarrow> sigma_search n psum target mid None (mid * 2)
            | Some h \<Rightarrow> sigma_search n psum target mid (Some h) ((mid + h) / 2.0)))"

text \<open>The floor applied to \<^verbatim>\<open>result[i]\<close> after the search.\<close>

definition sigma_floor :: "vec \<Rightarrow> real \<Rightarrow> real \<Rightarrow> real \<Rightarrow> real" where
  "sigma_floor ith_distances rho mean_distances result =
     (if rho > 0.0
      then (let mean_ith_distances = mean ith_distances
            in if result < MIN_K_DIST_SCALE * mean_ith_distances
               then MIN_K_DIST_SCALE * mean_ith_distances else result)
      else (if result < MIN_K_DIST_SCALE * mean_distances
            then MIN_K_DIST_SCALE * mean_distances else result))"

text \<open>
  \<^verbatim>\<open>smooth_knn_dist(distances, k, n_iter, local_connectivity, bandwidth)\<close> returns
  \<^verbatim>\<open>(result, rho)\<close>; iteration \<open>i\<close> of the outer loop writes only position \<open>i\<close> of the two
  arrays, so the loop is a map over the rows.
\<close>

definition smooth_knn_row :: "real \<Rightarrow> nat \<Rightarrow> real \<Rightarrow> real \<Rightarrow> vec \<Rightarrow> real \<times> real" where
  "smooth_knn_row target n_iter local_connectivity mean_distances ith_distances =
     (let rho = rho_of ith_distances local_connectivity;
          mid = sigma_search n_iter (psum_of ith_distances rho) target 0.0 None 1.0
      in (sigma_floor ith_distances rho mean_distances mid, rho))"

definition smooth_knn_dist :: "matrix \<Rightarrow> real \<Rightarrow> nat \<Rightarrow> real \<Rightarrow> real \<Rightarrow> vec \<times> vec" where
  "smooth_knn_dist distances k n_iter local_connectivity bandwidth =
     (let target = log 2 k * bandwidth;
          mean_distances = mean2 distances;
          rs = map (smooth_knn_row target n_iter local_connectivity mean_distances) distances
      in (map fst rs, map snd rs))"

section \<open>Epoch schedule\<close>

text \<open>
  Exceptions raised by the modelled Python code; \<open>ExternalError\<close> stands for whatever a
  collaborator outside the modelled source raises.
\<close>

datatype py_error = ValueError | TypeError | AttributeError | ExternalError

text \<open>
  \<^verbatim>\<open>make_epochs_per_sample\<close> divides by \<^verbatim>\<open>weights.max()\<close>, which may be zero.  numpy
  does not raise there: it follows IEEE 754 and yields an infinity or NaN.  Those values are
  therefore explicit in this part of the model: a float is a finite real, an infinity or NaN.
\<close>

datatype npfloat = Finite real | PosInf | NegInf | NaN

text \<open>\<^verbatim>\<open>x / y\<close> on two finite floats, elementwise as numpy computes it.\<close>

definition np_div :: "real \<Rightarrow> real \<Rightarrow> npfloat" where
  "np_div x y =
     (if y \<noteq> 0 then Finite (x / y)
      else if x > 0 then PosInf
      else if x < 0 then NegInf
      else NaN)"

text \<open>\<^verbatim>\<open>n * x\<close> for a finite scalar \<open>n\<close>.\<close>

fun np_scale :: "real \<Rightarrow> npfloat \<Rightarrow> npfloat" where
  "np_scale n (Finite x) = Finite (n * x)"
| "np_scale n PosInf = (if n > 0 then PosInf else if n < 0 then NegInf else NaN)"
| "np_scale n NegInf = (if n > 0 then NegInf else if n < 0 then PosInf else NaN)"
| "np_scale n NaN = NaN"

text \<open>The mask \<^verbatim>\<open>n_samples > 0\<close>: every comparison with NaN is false.\<close>

fun np_gt_zero :: "npfloat \<Rightarrow> bool" where
  "np_gt_zero (Finite x) = (x > 0)"
| "np_gt_zero PosInf = True"
| "np_gt_zero NegInf = False"
| "np_gt_zero NaN = False"

text \<open>
  One entry of the result: -1.0 unless the mask selects it, then
  \<^verbatim>\<open>float(n_epochs) / n_samples\<close>; under the mask the only value that is not finite is
  \<open>+inf\<close>, and a finite number divided by it is 0.
\<close>

definition epochs_entry :: "int \<Rightarrow> npfloat \<Rightarrow> real" where
  "epochs_entry n_epochs s =
     (if np_gt_zero s
      then (case s of Finite v \<Rightarrow> real_of_int n_epochs / v | _ \<Rightarrow> 0)
      else - 1.0)"

text \<open>
  \<^verbatim>\<open>make_epochs_per_sample(weights, n_epochs)\<close>.  \<^verbatim>\<open>weights.max()\<close> of an empty array
  raises \<^verbatim>\<open>ValueError\<close>.
\<close>

definition make_epochs_per_sample :: "vec \<Rightarrow> int \<Rightarrow> py_error + vec" where
  "make_epochs_per_sample weights n_epochs =
     (if weights = [] then Inl ValueError
      else
        let n_samples = map (\<lambda>w. np_scale (real_of_int n_epochs) (np_div w (Max (set weights))))
                          weights
        in Inr (map (epochs_entry n_epochs) n_samples))"

text \<open>
  How the optimizers use the schedule (the same lines in \<^verbatim>\<open>init_optimize_layout\<close> and
  \<^verbatim>\<open>optimize_layout\<close>): \<^verbatim>\<open>epoch_of_next_sample\<close> starts as a copy of
  \<^verbatim>\<open>epochs_per_sample\<close>; in epoch \<open>n\<close> the edge \<open>i\<close> is sampled when
  \<^verbatim>\<open>epoch_of_next_sample[i] <= n\<close>, and then \<^verbatim>\<open>epochs_per_sample[i]\<close> is added to its
  counter.  Each edge has its own counter, so the epochs in which one edge is sampled depend
  on its schedule value alone.
\<close>

fun edge_schedule :: "real \<Rightarrow> real \<Rightarrow> nat list \<Rightarrow> nat list" where
  "edge_schedule epochs_per_sample epoch_of_next_sample [] = []"
| "edge_schedule epochs_per_sample epoch_of_next_sample (n # ns) =
     (if epoch_of_next_sample \<le> real n
      then n # edge_schedule epochs_per_sample (epoch_of_next_sample + epochs_per_sample) ns
      else edge_schedule epochs_per_sample epoch_of_next_sample ns)"

definition sampled_epochs :: "real \<Rightarrow> nat \<Rightarrow> nat list" where
  "sampled_epochs epochs_per_sample n_epochs =
     edge_schedule epochs_per_sample epochs_per_sample [0..<n_epochs]"

section \<open>Sparse matrices and the fuzzy simplicial set\<close>

text \<open>
  A \<^verbatim>\<open>scipy.sparse\<close> matrix is modelled by its stored entries, a list of positions with
  values.  As in the COO format a position may be stored more than once, and the matrix
  entry at a position is the sum of the values stored for it.
\<close>

type_synonym sparse = "((int \<times> int) \<times> real) list"

definition entry :: "sparse \<Rightarrow> int \<times> int \<Rightarrow> real" where
  "entry m p = sum_list (map snd (filter (\<lambda>e. fst e = p) m))"

text \<open>\<^verbatim>\<open>scipy.sparse.coo_matrix((vals, (rows, cols)), shape)\<close>.\<close>

definition coo_matrix :: "real list \<Rightarrow> int list \<Rightarrow> int list \<Rightarrow> sparse" where
  "coo_matrix vals rows cols = zip (zip rows cols) vals"

text \<open>\<^verbatim>\<open>eliminate_zeros()\<close> drops the stored entries whose value is zero.\<close>

definition eliminate_zeros :: "sparse \<Rightarrow> sparse" where
  "eliminate_zeros m = filter (\<lambda>e. snd e \<noteq> 0) m"

definition sp_transpose :: "sparse \<Rightarrow> sparse" where
  "sp_transpose m = map (\<lambda>e. ((snd (fst e), fst (fst e)), snd e)) m"

text \<open>
  Results of the arithmetic operations store each position once: the positions of the
  operands, with the value the operation gives there.
\<close>

definition sp_build :: "(int \<times> int) list \<Rightarrow> (int \<times> int \<Rightarrow> real) \<Rightarrow> sparse" where
  "sp_build ps f = map (\<lambda>p. (p, f p)) (remdups ps)"

text \<open>\<^verbatim>\<open>a.multiply(b)\<close>, the elementwise product.\<close>

definition sp_multiply :: "sparse \<Rightarrow> sparse \<Rightarrow> sparse" where
  "sp_multiply a b = sp_build (map fst a) (\<lambda>p. entry a p * entry b p)"

definition sp_add :: "sparse \<Rightarrow> sparse \<Rightarrow> sparse" where
  "sp_add a b = sp_build (map fst a @ map fst b) (\<lambda>p. entry a p + entry b p)"

definition sp_sub :: "sparse \<Rightarrow> sparse \<Rightarrow> sparse" where
  "sp_sub a b = sp_build (map fst a @ map fst b) (\<lambda>p. entry a p - entry b p)"

definition sp_scale :: "real \<Rightarrow> sparse \<Rightarrow> sparse" where
  "sp_scale c m = sp_build (map fst m) (\<lambda>p. c * entry m p)"

text \<open>
  \<^verbatim>\<open>fuzzy_simplicial_set\<close> on given \<^verbatim>\<open>knn_indices\<close> and \<^verbatim>\<open>knn_dists\<close> (the neighbor
  search that fills them in when they are absent is an external collaborator).
  \<^verbatim>\<open>smooth_knn_dist\<close> is called with its defaults \<^verbatim>\<open>n_iter=64\<close> and \<^verbatim>\<open>bandwidth=1.0\<close>.
\<close>

definition fuzzy_simplicial_set ::
  "nat \<Rightarrow> int list list \<Rightarrow> matrix \<Rightarrow> real \<Rightarrow> real \<Rightarrow> sparse" where
  "fuzzy_simplicial_set n_neighbors knn_indices knn_dists set_op_mix_ratio local_connectivity =
     (case smooth_knn_dist knn_dists (real n_neighbors) 64 local_connectivity 1.0 of
        (sigmas, rhos) \<Rightarrow>
     (case compute_membership_strengths knn_indices knn_dists sigmas rhos of
        (rows, cols, vals) \<Rightarrow>
     (let result = eliminate_zeros (coo_matrix vals rows cols);
          transpose = sp_transpose result;
          prod_matrix = sp_multiply result transpose;
          result = sp_add
                     (sp_scale set_op_mix_ratio (sp_sub (sp_add result transpose) prod_matrix))
                     (sp_scale (1.0 - set_op_mix_ratio) prod_matrix)
      in eliminate_zeros result)))"

section \<open>The estimator \<^verbatim>\<open>UEC_PV\<close>\<close>

text \<open>
  Input data after \<^verbatim>\<open>check_array\<close> is a dense array or a CSR sparse matrix; both are
  kept as their rows.  \<^verbatim>\<open>X.shape[0]\<close> is the number of rows.
\<close>

datatype pydata = Dense matrix | Csr matrix

fun shape0 :: "pydata \<Rightarrow> nat" where
  "shape0 (Dense m) = length m"
| "shape0 (Csr m) = length m"

fun isspmatrix_csr :: "pydata \<Rightarrow> bool" where
  "isspmatrix_csr (Dense m) = False"
| "isspmatrix_csr (Csr m) = True"

text \<open>
  Constructor arguments whose Python type is tested by \<^verbatim>\<open>_validate_parameters\<close>: a number
  is an \<^verbatim>\<open>int\<close> or a \<^verbatim>\<open>float\<close>; \<^verbatim>\<open>init\<close> is a string, an ndarray or something else;
  \<^verbatim>\<open>metric\<close> is a string, a callable or something else.
\<close>

datatype pynum = PyInt int | PyFloat real

fun num_val :: "pynum \<Rightarrow> real" where
  "num_val (PyInt n) = real_of_int n"
| "num_val (PyFloat x) = x"

fun is_int :: "pynum \<Rightarrow> bool" where
  "is_int (PyInt n) = True"
| "is_int (PyFloat x) = False"

datatype init_arg = InitStr string | InitArray matrix | InitOther

datatype metric_arg = MetricStr string | MetricCallable | MetricOther

text \<open>
  The attributes of the estimator.  Those of the constructor come first; the attributes that
  \<^verbatim>\<open>fit\<close> assigns are \<open>None\<close> until they are assigned, and reading one that is
  \<open>None\<close> is an \<^verbatim>\<open>AttributeError\<close>.  \<^verbatim>\<open>self.x\<close> is the field \<open>self_x\<close>, the private
  \<^verbatim>\<open>self._x\<close> is \<open>self__x\<close>, and \<^verbatim>\<open>self.embedding_\<close> is \<open>self_embedding\<close>.
\<close>

record estimator =
  self_n_neighbors :: int
  self_n_components :: pynum
  self_metric :: metric_arg
  self_n_epochs :: "pynum option"
  self_learning_rate :: real
  self_init :: init_arg
  self_min_dist :: real
  self_spread :: real
  self_set_op_mix_ratio :: real
  self_local_connectivity :: real
  self_repulsion_strength :: real
  self_negative_sample_rate :: int
  self_a :: "real option"
  self_b :: "real option"
  self_target_n_neighbors :: int
  self_verbose :: bool
  self__raw_data :: "pydata option"
  self__a :: "real option"
  self__b :: "real option"
  self__initial_alpha :: "real option"
  self__n_neighbors :: "nat option"
  self__sparse_data :: "bool option"
  self__small_data :: "bool option"
  self_embedding :: "matrix option"
  self_y_pred :: "int list option"
  self_centroids :: "matrix option"
  self__input_hash :: "string option"

text \<open>
  The collaborators outside the modelled source, taken as parameters: scikit-learn's
  \<^verbatim>\<open>check_array\<close>, \<^verbatim>\<open>joblib.hash\<close>, \<^verbatim>\<open>find_ab_params\<close> (a \<^verbatim>\<open>scipy\<close> curve fit), the
  table \<^verbatim>\<open>dist.named_distances\<close>, the construction of the graph from the data (with its neighbor
  search), the fusion of the graph with a target, \<^verbatim>\<open>simplicial_set_embedding\<close> (random or spectral
  initialisation, k-means and the optimizer runs), the neighbor search of \<^verbatim>\<open>transform\<close>
  and the row normalisation of its graph.  Each may raise.
\<close>

record externals =
  check_array :: "pydata \<Rightarrow> py_error + pydata"
  check_init :: "matrix \<Rightarrow> py_error + matrix"
  joblib_hash :: "pydata \<Rightarrow> string"
  find_ab_params :: "real \<Rightarrow> real \<Rightarrow> py_error + (real \<times> real)"
  named_distances :: "string list"
  construct_graph :: "estimator \<Rightarrow> pydata \<Rightarrow> py_error + sparse"
  fuse_target :: "estimator \<Rightarrow> sparse \<Rightarrow> real list \<Rightarrow> py_error + sparse"
  simplicial_set_embedding ::
    "estimator \<Rightarrow> sparse \<Rightarrow> py_error + (matrix \<times> int list \<times> matrix)"
  transform_neighbors :: "estimator \<Rightarrow> pydata \<Rightarrow> py_error + (int list list \<times> matrix)"
  normalize_l1 :: "sparse \<Rightarrow> py_error + (int list list \<times> matrix)"

text \<open>
  \<^verbatim>\<open>_validate_parameters\<close>: the checks in the order of the source; each raises
  \<^verbatim>\<open>ValueError\<close>.  Reading \<^verbatim>\<open>self._initial_alpha\<close> before \<^verbatim>\<open>fit\<close> has assigned it is
  an \<^verbatim>\<open>AttributeError\<close>.
\<close>

definition validate_parameters :: "estimator \<Rightarrow> py_error + unit" where
  "validate_parameters self =
     (if self_set_op_mix_ratio self < 0.0 \<or> self_set_op_mix_ratio self > 1.0 then Inl ValueError
      else if self_repulsion_strength self < 0.0 then Inl ValueError
      else if self_min_dist self > self_spread self then Inl ValueError
      else if self_min_dist self < 0.0 then Inl ValueError
      else if self_init self = InitOther then Inl ValueError
      else if (case self_init self of
                 InitStr s \<Rightarrow> s \<noteq> ''spectral'' \<and> s \<noteq> ''random'' | _ \<Rightarrow> False)
           then Inl ValueError
      else if (case self_init self of
                 InitArray m \<Rightarrow> real (ncols m) \<noteq> num_val (self_n_components self)
               | _ \<Rightarrow> False)
           then Inl ValueError
      else if self_metric self = MetricOther then Inl ValueError
      else if self_negative_sample_rate self < 0 then Inl ValueError
      else if self__initial_alpha self = None then Inl AttributeError
      else if the (self__initial_alpha self) < 0.0 then Inl ValueError
      else if self_n_neighbors self < 2 then Inl ValueError
      else if self_target_n_neighbors self < 2 \<and> self_target_n_neighbors self \<noteq> - 1
           then Inl ValueError
      else if \<not> is_int (self_n_components self) then Inl ValueError
      else if num_val (self_n_components self) < 1 then Inl ValueError
      else if (case self_n_epochs self of
                 None \<Rightarrow> False
               | Some n \<Rightarrow> num_val n \<le> 10 \<or> \<not> is_int n)
           then Inl ValueError
      else Inr ())"

text \<open>
  \<^verbatim>\<open>np.zeros((1, n_components))\<close>: a float or a negative number as a dimension raises.
\<close>

definition zeros :: "nat \<Rightarrow> pynum \<Rightarrow> py_error + matrix" where
  "zeros r c =
     (case c of
        PyInt n \<Rightarrow> if n < 0 then Inl ValueError else Inr (replicate r (replicate (nat n) 0.0))
      | PyFloat x \<Rightarrow> Inl TypeError)"

text \<open>
  The part of \<^verbatim>\<open>fit\<close> after the data-size test: the flags, the graph, the metric test of
  the large-data branch, the fusion with a target \<^verbatim>\<open>y\<close> (where \<^verbatim>\<open>len(X)\<close> of a sparse
  matrix raises \<^verbatim>\<open>TypeError\<close>), the embedding and the hash of the input.
\<close>

definition fit_graph_embedding ::
  "externals \<Rightarrow> estimator \<Rightarrow> pydata \<Rightarrow> real list option \<Rightarrow> py_error + estimator" where
  "fit_graph_embedding ext self X y =
     (let self = self\<lparr>self__sparse_data := Some (isspmatrix_csr X)\<rparr>;
          small = shape0 X < 4096;
          self = self\<lparr>self__small_data := Some small\<rparr>
      in
     (case construct_graph ext self X of
        Inl e \<Rightarrow> Inl e
      | Inr graph \<Rightarrow>
          if \<not> small
             \<and> (case self_metric self of
                    MetricStr s \<Rightarrow> s \<notin> set (named_distances ext) \<and> s \<noteq> ''precomputed''
                  | MetricCallable \<Rightarrow> False
                  | MetricOther \<Rightarrow> True)
          then Inl ValueError
          else
            (case (case y of
                     None \<Rightarrow> Inr graph
                   | Some ys \<Rightarrow>
                       if isspmatrix_csr X then Inl TypeError
                       else if shape0 X \<noteq> length ys then Inl ValueError
                       else fuse_target ext self graph ys) of
               Inl e \<Rightarrow> Inl e
             | Inr graph \<Rightarrow>
            (case simplicial_set_embedding ext self graph of
               Inl e \<Rightarrow> Inl e
             | Inr (embedding, y_pred, centroids) \<Rightarrow>
                 Inr (self\<lparr>self_embedding := Some embedding,
                            self_y_pred := Some y_pred,
                            self_centroids := Some centroids,
                            self__input_hash := Some (joblib_hash ext X)\<rparr>)))))"

text \<open>
  \<^verbatim>\<open>fit\<close> from the assignment of \<^verbatim>\<open>self._initial_alpha\<close> on: validation, then the test
  of the data size with the return for a single sample.
\<close>

definition fit_validated ::
  "externals \<Rightarrow> estimator \<Rightarrow> pydata \<Rightarrow> real list option \<Rightarrow> py_error + estimator" where
  "fit_validated ext self X y =
     (let self = self\<lparr>self__initial_alpha := Some (self_learning_rate self)\<rparr>
      in
     (case validate_parameters self of
        Inl e \<Rightarrow> Inl e
      | Inr u \<Rightarrow>
          if int (shape0 X) \<le> self_n_neighbors self
          then
            if shape0 X = 1
            then (case zeros 1 (self_n_components self) of
                    Inl e \<Rightarrow> Inl e
                  | Inr z \<Rightarrow> Inr (self\<lparr>self_embedding := Some z\<rparr>))
            else fit_graph_embedding ext (self\<lparr>self__n_neighbors := Some (shape0 X - 1)\<rparr>) X y
          else fit_graph_embedding ext
                 (self\<lparr>self__n_neighbors := Some (nat (self_n_neighbors self))\<rparr>) X y))"

text \<open>\<^verbatim>\<open>fit(X, y)\<close> returns \<^verbatim>\<open>self\<close>, here the updated estimator.\<close>

definition fit ::
  "externals \<Rightarrow> estimator \<Rightarrow> pydata \<Rightarrow> real list option \<Rightarrow> py_error + estimator" where
  "fit ext self X0 y =
     (case check_array ext X0 of
        Inl e \<Rightarrow> Inl e
      | Inr X \<Rightarrow>
     (let self = self\<lparr>self__raw_data := Some X\<rparr>
      in
     (case (if self_a self = None \<or> self_b self = None
            then find_ab_params ext (self_spread self) (self_min_dist self)
            else Inr (the (self_a self), the (self_b self))) of
        Inl e \<Rightarrow> Inl e
      | Inr (a', b') \<Rightarrow>
     (let self = self\<lparr>self__a := Some a', self__b := Some b'\<rparr>
      in
     (case self_init self of
        InitArray m \<Rightarrow>
          (case check_init ext m of
             Inl e \<Rightarrow> Inl e
           | Inr init \<Rightarrow> fit_validated ext self X y)
      | _ \<Rightarrow> fit_validated ext self X y)))))"

section \<open>\<^verbatim>\<open>transform\<close>\<close>

text \<open>
  \<^verbatim>\<open>init_transform(indices, weights, embedding)\<close>: the weighted sum of the embedded
  neighbors.  A negative index counts from the end of the array.
\<close>

definition index_row :: "matrix \<Rightarrow> int \<Rightarrow> vec" where
  "index_row embedding idx =
     (if idx < 0 then embedding ! nat (int (length embedding) + idx) else embedding ! nat idx)"

definition init_transform :: "int list list \<Rightarrow> matrix \<Rightarrow> matrix \<Rightarrow> matrix" where
  "init_transform indices weights embedding =
     map (\<lambda>i. map (\<lambda>d. foldl (\<lambda>r j. r + weights ! i ! j
                                        * index_row embedding (indices ! i ! j) ! d)
                           0.0 [0..<ncols indices])
                [0..<ncols embedding])
       [0..<length indices]"

text \<open>
  Binding the arguments of a call to the parameters of a \<^verbatim>\<open>def\<close>: the positional
  arguments fill the parameters from the left, each keyword must name a parameter that is
  still free, and every parameter without a default must be bound; otherwise the call raises
  \<^verbatim>\<open>TypeError\<close> before the body runs.
\<close>

datatype param = Required string | Defaulted string

fun param_name :: "param \<Rightarrow> string" where
  "param_name (Required nm) = nm"
| "param_name (Defaulted nm) = nm"

fun unbound_required :: "string list \<Rightarrow> param \<Rightarrow> bool" where
  "unbound_required keywords (Required nm) = (nm \<notin> set keywords)"
| "unbound_required keywords (Defaulted nm) = False"

definition bind_arguments :: "param list \<Rightarrow> nat \<Rightarrow> string list \<Rightarrow> py_error + unit" where
  "bind_arguments params n_positional keywords =
     (if n_positional > length params then Inl TypeError
      else
        let free = drop n_positional params
        in if list_ex (\<lambda>k. k \<notin> set (map param_name free)) keywords then Inl TypeError
           else if list_ex (unbound_required keywords) free then Inl TypeError
           else Inr ())"

text \<open>The signature of \<^verbatim>\<open>optimize_layout\<close>.\<close>

definition optimize_layout_params :: "param list" where
  "optimize_layout_params =
     [Required ''head_embedding'', Required ''tail_embedding'', Required ''head'',
      Required ''tail'', Required ''n_epochs'', Required ''y_pred'', Required ''centroids'',
      Required ''P'', Required ''n_vertices'', Required ''epochs_per_sample'', Required ''a'',
      Required ''b'', Required ''n_clusters'', Required ''rng_state'', Defaulted ''gamma'',
      Defaulted ''initial_eta'', Defaulted ''negative_sample_rate'', Defaulted ''verbose'']"

text \<open>
  What \<^verbatim>\<open>transform\<close> returns: the stored embedding, or whatever the call of
  \<^verbatim>\<open>optimize_layout\<close> returns, which is a tuple of five arrays.
\<close>

datatype transform_result = Embedding matrix | LayoutTuple

text \<open>\<^verbatim>\<open>v < t\<close> for a finite \<open>v\<close> and a threshold that may be an infinity or NaN.\<close>

fun np_less :: "real \<Rightarrow> npfloat \<Rightarrow> bool" where
  "np_less v (Finite t) = (v < t)"
| "np_less v PosInf = True"
| "np_less v NegInf = False"
| "np_less v NaN = False"

text \<open>
  The epoch budget of \<^verbatim>\<open>transform\<close>: 100 or 30 when \<^verbatim>\<open>n_epochs\<close> is unset, else
  \<^verbatim>\<open>self.n_epochs // 3.0\<close>.
\<close>

definition transform_n_epochs :: "estimator \<Rightarrow> nat \<Rightarrow> int" where
  "transform_n_epochs self n_new =
     (case self_n_epochs self of
        None \<Rightarrow> if n_new \<le> 10000 then 100 else 30
      | Some n \<Rightarrow> \<lfloor>num_val n / 3.0\<rfloor>)"

text \<open>
  \<^verbatim>\<open>transform\<close> for data that is not the fitted input: neighbors among the fitted points,
  calibration, membership strengths, initial positions, pruning of the graph, the schedule,
  and the call \<^verbatim>\<open>optimize_layout(...)\<close> with thirteen positional arguments and the keyword
  \<^verbatim>\<open>verbose\<close>, whose result is returned.
\<close>

definition transform_new ::
  "externals \<Rightarrow> estimator \<Rightarrow> matrix \<Rightarrow> pydata \<Rightarrow> py_error + transform_result" where
  "transform_new ext self fitted X0 =
     (case check_array ext X0 of
        Inl e \<Rightarrow> Inl e
      | Inr X \<Rightarrow>
     (case self__small_data self of
        None \<Rightarrow> Inl AttributeError
      | Some small \<Rightarrow>
     (case transform_neighbors ext self X of
        Inl e \<Rightarrow> Inl e
      | Inr (indices, dists) \<Rightarrow>
     (case self__n_neighbors self of
        None \<Rightarrow> Inl AttributeError
      | Some n_neighbors \<Rightarrow>
     (let adjusted_local_connectivity = max 0 (self_local_connectivity self - 1.0)
      in
     (case smooth_knn_dist dists (real n_neighbors) 64 adjusted_local_connectivity 1.0 of
        (sigmas, rhos) \<Rightarrow>
     (case compute_membership_strengths indices dists sigmas rhos of
        (rows, cols, vals) \<Rightarrow>
     (case normalize_l1 ext (coo_matrix vals rows cols) of
        Inl e \<Rightarrow> Inl e
      | Inr (inds, weights) \<Rightarrow>
     (let embedding = init_transform inds weights fitted;
          n_epochs = transform_n_epochs self (shape0 X)
      in if vals = [] then Inl ValueError
         else
           (let threshold = np_div (Max (set vals)) (real_of_int n_epochs);
                data = filter (\<lambda>v. v \<noteq> 0)
                         (map (\<lambda>v. if np_less v threshold then 0.0 else v) vals)
            in
           (case make_epochs_per_sample data n_epochs of
              Inl e \<Rightarrow> Inl e
            | Inr epochs_per_sample \<Rightarrow>
           (case bind_arguments optimize_layout_params 13 [''verbose''] of
              Inl e \<Rightarrow> Inl e
            | Inr u \<Rightarrow> Inr LayoutTuple))))))))))))"

text \<open>\<^verbatim>\<open>transform(X)\<close>.\<close>

definition transform :: "externals \<Rightarrow> estimator \<Rightarrow> pydata \<Rightarrow> py_error + transform_result" where
  "transform ext self X0 =
     (case self_embedding self of
        None \<Rightarrow> Inl AttributeError
      | Some fitted \<Rightarrow>
          if length fitted = 1 then Inl ValueError
          else
            (case check_array ext X0 of
               Inl e \<Rightarrow> Inl e
             | Inr X \<Rightarrow>
            (case self__input_hash self of
               None \<Rightarrow> Inl AttributeError
             | Some input_hash \<Rightarrow>
                 if joblib_hash ext X = input_hash then Inr (Embedding fitted)
                 else
                   (case self__sparse_data self of
                      None \<Rightarrow> Inl AttributeError
                    | Some sparse_data \<Rightarrow>
                        if sparse_data then Inl ValueError
                        else if self_metric self = MetricStr ''precomputed''
                        then Inl ValueError
                        else transform_new ext self fitted X))))"

text \<open>An instance of the collaborators and of the constructor defaults, for the examples.\<close>

definition example_hash :: "pydata \<Rightarrow> string" where
  "example_hash X =
     (if X = Dense [[0], [1], [3]] then ''h013'' else if X = Dense [[7]] then ''h7''
      else ''h'')"

definition example_ext :: externals where
  "example_ext =
     \<lparr>check_array = Inr,
      check_init = Inr,
      joblib_hash = example_hash,
      find_ab_params = (\<lambda>spread min_dist. Inr (1.577, 0.895)),
      named_distances = [''euclidean''],
      construct_graph = (\<lambda>self X. Inr []),
      fuse_target = (\<lambda>self graph ys. Inr graph),
      simplicial_set_embedding =
        (\<lambda>self graph. Inr ([[0, 0], [1, 1], [3, 3]], [0, 0, 1], [[0.5, 0.5], [3, 3]])),
      transform_neighbors = (\<lambda>self X. Inr ([[1]], [[0]])),
      normalize_l1 = (\<lambda>graph. Inr ([[1]], [[1]]))\<rparr>"

definition example_estimator :: estimator where
  "example_estimator =
     \<lparr>self_n_neighbors = 15, self_n_components = PyInt 2,
      self_metric = MetricStr ''euclidean'', self_n_epochs = None, self_learning_rate = 1.0,
      self_init = InitStr ''spectral'', self_min_dist = 0.1, self_spread = 1.0,
      self_set_op_mix_ratio = 1.0, self_local_connectivity = 1.0,
      self_repulsion_strength = 1.0, self_negative_sample_rate = 5, self_a = None,
      self_b = None, self_target_n_neighbors = - 1, self_verbose = False,
      self__raw_data = None, self__a = None, self__b = None, self__initial_alpha = None,
      self__n_neighbors = None, self__sparse_data = None, self__small_data = None,
      self_embedding = None, self_y_pred = None, self_centroids = None,
      self__input_hash = None\<rparr>"

text \<open>The example estimator after \<^verbatim>\<open>fit\<close> on the three samples 0, 1, 3.\<close>

definition example_fitted :: estimator where
  "example_fitted =
     example_estimator
       \<lparr>self__raw_data := Some (Dense [[0], [1], [3]]),
        self__a := Some 1.577, self__b := Some 0.895,
        self__initial_alpha := Some 1.0,
        self__n_neighbors := Some 2,
        self__sparse_data := Some False,
        self__small_data := Some True,
        self_embedding := Some [[0, 0], [1, 1], [3, 3]],
        self_y_pred := Some [0, 0, 1],
        self_centroids := Some [[0.5, 0.5], [3, 3]],
        self__input_hash := Some ''h013''\<rparr>"

section \<open>Clamp bounds\<close>

lemma clip_bound: "\<bar>clip v\<bar> \<le> 4"
  unfolding clip_def by (auto simp: abs_if)

lemma clip_clust_bound: "\<bar>clip_clust v\<bar> \<le> 1"
  unfolding clip_clust_def by (auto simp: abs_if)

lemma clip_zero: "clip 0 = 0"
  by (simp add: clip_def)

lemma clip_clust_zero: "clip_clust 0 = 0"
  by (simp add: clip_clust_def)

lemma etaCE_at_range: "n < ol_n_epochs \<Longrightarrow> 0 < etaCE_at n \<and> etaCE_at n \<le> 1"
  by (cases n) (simp_all add: initial_etaCE_def ol_n_epochs_def)

lemma negative_grad_d_bound: "\<bar>negative_grad_d g current other d\<bar> \<le> 4"
  by (simp add: negative_grad_d_def clip_bound)

lemma scaled_bound:
  fixes g eta :: real
  assumes "\<bar>g\<bar> \<le> c" "0 \<le> eta" "eta \<le> 1"
  shows "\<bar>g * eta\<bar> \<le> c"
proof -
  have "\<bar>g * eta\<bar> = \<bar>g\<bar> * eta" using assms(2) by (simp add: abs_mult)
  also have "\<dots> \<le> \<bar>g\<bar> * 1" using assms(3) by (intro mult_left_mono) simp_all
  finally show ?thesis using assms(1) by simp
qed

lemma centroid_update_bound:
  assumes "0 < nn_sample"
  shows "\<bar>centroid_update a b nn_sample current centroid\<bar> \<le> 1"
proof -
  let ?g = "clip (centroid_grad_coeff a b (rdist current centroid))"
  have n: "1 \<le> real nn_sample * 100" using assms by simp
  have "\<bar>centroid_update a b nn_sample current centroid\<bar> = \<bar>?g\<bar> / (real nn_sample * 100)"
    by (simp add: centroid_update_def etaKL_def)
  also have "\<dots> \<le> 4 / (real nn_sample * 100)"
    using clip_bound [of "centroid_grad_coeff a b (rdist current centroid)"] n
    by (intro divide_right_mono) simp_all
  also have "\<dots> \<le> 4 / 100"
    using assms by (intro divide_left_mono) simp_all
  finally show ?thesis by simp
qed

text \<open>
  C5.  In every epoch of the joint optimizer the per-coordinate gradient of the attraction
  term and of a negative sample is at most 4.0 in magnitude, also after scaling by the rate
  in force in that epoch (which lies in (0, 1]), and the amount the clustering term adds to a
  coordinate of a point or, in the centroid pass, of a centroid is at most 1.0 in magnitude.
\<close>

theorem gradient_updates_clipped:
  assumes "n < ol_n_epochs" and "0 < nn_sample"
  shows "\<bar>attraction_grad_d a b current other d\<bar> \<le> 4
       \<and> \<bar>attraction_update (etaCE_at n) a b current other d\<bar> \<le> 4
       \<and> \<bar>attraction_update_other (etaCE_at n) a b current other d\<bar> \<le> 4
       \<and> (\<forall>g. negative_sample_grad_d gamma a b j k current other d = Some g \<longrightarrow> \<bar>g\<bar> \<le> 4)
       \<and> (\<forall>u. negative_sample_update (etaCE_at n) gamma a b j k current other d = Some u
              \<longrightarrow> \<bar>u\<bar> \<le> 4)
       \<and> \<bar>clip_clust (cluster_grad_coeff a b (rdist current centroid))\<bar> \<le> 1
       \<and> \<bar>cluster_update a b current centroid\<bar> \<le> 1
       \<and> \<bar>centroid_update a b nn_sample current centroid\<bar> \<le> 1"
proof -
  from assms have eta: "0 \<le> etaCE_at n" "etaCE_at n \<le> 1"
    using etaCE_at_range [of n] by simp_all
  have A: "\<bar>attraction_grad_d a b current other d\<bar> \<le> 4"
    by (simp add: attraction_grad_d_def clip_bound)
  have B: "\<bar>attraction_update (etaCE_at n) a b current other d\<bar> \<le> 4"
    using scaled_bound [OF A eta] by (simp add: attraction_update_def ol_alpha_def)
  have B': "\<bar>attraction_update_other (etaCE_at n) a b current other d\<bar> \<le> 4"
    using scaled_bound [OF A eta] by (simp add: attraction_update_other_def)
  have C: "\<bar>g\<bar> \<le> 4"
    if "negative_sample_grad_d gamma a b j k current other d = Some g" for g
    using that negative_grad_d_bound
    by (auto simp: negative_sample_grad_d_def split: option.splits)
  have D: "\<bar>u\<bar> \<le> 4"
    if "negative_sample_update (etaCE_at n) gamma a b j k current other d = Some u" for u
  proof -
    from that obtain g where
      g: "negative_sample_grad_d gamma a b j k current other d = Some g" and
      u: "u = g * etaCE_at n"
      by (auto simp: negative_sample_update_def split: option.splits)
    show ?thesis unfolding u by (rule scaled_bound [OF C [OF g] eta])
  qed
  have E: "\<bar>clip_clust (cluster_grad_coeff a b (rdist current centroid))\<bar> \<le> 1"
    by (rule clip_clust_bound)
  have "\<bar>cluster_update a b current centroid\<bar>
        = \<bar>clip_clust (cluster_grad_coeff a b (rdist current centroid))\<bar> * 0.00001"
    by (simp add: cluster_update_def ol_beta_def etaKL_def abs_mult)
  also have "\<dots> \<le> 1 * 0.00001"
    using E by (intro mult_right_mono) simp_all
  finally have F: "\<bar>cluster_update a b current centroid\<bar> \<le> 1" by simp
  have G: "\<bar>centroid_update a b nn_sample current centroid\<bar> \<le> 1"
    using assms(2) by (rule centroid_update_bound)
  from A B B' C D E F G show ?thesis by blast
qed

lemma negative_sample_clipped_example:
  "negative_sample_grad_d 1 1 1 0 1 [0] [1 / 10] 0 = Some (- 4)"
  by (simp add: negative_sample_grad_d_def negative_grad_coeff_def negative_grad_d_def
      rdist_def clip_def power2_eq_square)

theorem gradient_updates_clipped_witness:
  "(0::nat) < ol_n_epochs \<and> (0::nat) < 3
   \<and> \<bar>attraction_grad_d 1 1 [0] [1 / 10] 0\<bar> \<le> 4
   \<and> \<bar>attraction_update (etaCE_at 0) 1 1 [0] [1 / 10] 0\<bar> \<le> 4
   \<and> negative_sample_grad_d 1 1 1 0 1 [0] [1 / 10] 0 = Some (- 4)
   \<and> negative_sample_update (etaCE_at 0) 1 1 1 0 1 [0] [1 / 10] 0 = Some (- 4)
   \<and> \<bar>- 4 :: real\<bar> \<le> 4
   \<and> \<bar>cluster_update 1 1 [0] [1 / 10]\<bar> \<le> 1
   \<and> \<bar>centroid_update 1 1 3 [0] [1 / 10]\<bar> \<le> 1"
proof -
  have h: "(0::nat) < ol_n_epochs" by (simp add: ol_n_epochs_def)
  have h': "(0::nat) < 3" by simp
  note g = negative_sample_clipped_example
  have u: "negative_sample_update (etaCE_at 0) 1 1 1 0 1 [0] [1 / 10] 0 = Some (- 4)"
    unfolding negative_sample_update_def g by (simp add: initial_etaCE_def)
  from gradient_updates_clipped [OF h h', of 1 1 "[0]" "[1 / 10]" 0 1 0 1 "[1 / 10]"] h g u
  show ?thesis by simp
qed

section \<open>Coincident points\<close>

lemma attraction_zero_dist:
  "rdist current other = 0 \<Longrightarrow> attraction_grad_d a b current other d = 0"
  by (simp add: attraction_grad_d_def attraction_grad_coeff_def clip_zero)

lemma cluster_zero_dist:
  "rdist current centroid = 0 \<Longrightarrow> cluster_update a b current centroid = 0"
  by (simp add: cluster_update_def cluster_grad_coeff_def clip_clust_zero)

lemma centroid_zero_dist:
  "rdist current centroid = 0 \<Longrightarrow> centroid_update a b nn current centroid = 0"
  by (simp add: centroid_update_def centroid_grad_coeff_def clip_zero)

lemma negative_zero_dist:
  "rdist current other = 0 \<Longrightarrow> j \<noteq> k \<Longrightarrow>
   negative_sample_grad_d gamma a b j k current other d = Some 4"
  by (simp add: negative_sample_grad_d_def negative_grad_coeff_def negative_grad_d_def)

text \<open>
  C8.  In the negative-sampling loop (the same body in \<^verbatim>\<open>init_optimize_layout\<close> and
  \<^verbatim>\<open>optimize_layout\<close>), when the squared distance to the sampled partner is exactly zero
  and the two indices differ, the sample is not skipped and every coordinate receives the
  fixed gradient 4.0, so the amount added during any epoch of the budget is not zero; at zero
  squared distance the attraction term, the clustering term and the centroid term add
  nothing.
\<close>

theorem coincident_points_nudged:
  assumes "rdist current other = 0" and "j \<noteq> k" and "n < ol_n_epochs"
  shows "negative_sample_grad_d gamma a b j k current other d = Some 4
       \<and> negative_sample_update (etaCE_at n) gamma a b j k current other d
           = Some (4 * etaCE_at n)
       \<and> 4 * etaCE_at n \<noteq> 0
       \<and> attraction_grad_d a b current other d = 0
       \<and> attraction_update (etaCE_at n) a b current other d = 0
       \<and> cluster_update a b current other = 0
       \<and> centroid_update a b nn current other = 0"
proof -
  have N: "negative_sample_grad_d gamma a b j k current other d = Some 4"
    using assms(1,2) by (rule negative_zero_dist)
  have U: "negative_sample_update (etaCE_at n) gamma a b j k current other d
           = Some (4 * etaCE_at n)"
    by (simp add: negative_sample_update_def N)
  have E: "4 * etaCE_at n \<noteq> 0"
    using etaCE_at_range [OF assms(3)] by simp
  have A: "attraction_grad_d a b current other d = 0"
    using assms(1) by (rule attraction_zero_dist)
  have A': "attraction_update (etaCE_at n) a b current other d = 0"
    by (simp add: attraction_update_def A)
  have C: "cluster_update a b current other = 0"
    using assms(1) by (rule cluster_zero_dist)
  have M: "centroid_update a b nn current other = 0"
    using assms(1) by (rule centroid_zero_dist)
  from N U E A A' C M show ?thesis by simp
qed

theorem coincident_points_nudged_witness:
  "rdist [1, 2] [1, 2] = 0 \<and> (0::nat) \<noteq> 1 \<and> (3::nat) < ol_n_epochs
   \<and> negative_sample_grad_d 1 1 1 0 1 [1, 2] [1, 2] 0 = Some 4
   \<and> negative_sample_update (etaCE_at 3) 1 1 1 0 1 [1, 2] [1, 2] 0 = Some (4 * etaCE_at 3)
   \<and> 4 * etaCE_at 3 \<noteq> 0
   \<and> attraction_grad_d 1 1 [1, 2] [1, 2] 0 = 0
   \<and> cluster_update 1 1 [1, 2] [1, 2] = 0"
proof -
  have h1: "rdist [1, 2] [1, 2] = 0" by (simp add: rdist_def)
  have h2: "(0::nat) \<noteq> 1" by simp
  have h3: "(3::nat) < ol_n_epochs" by (simp add: ol_n_epochs_def)
  from coincident_points_nudged [OF h1 h2 h3, of 1 1 1 0 1] h1 h2 h3
  show ?thesis by simp
qed

section \<open>Rows of the target distribution\<close>

lemma ncols_pos: "positive_matrix q c \<Longrightarrow> ncols q = c"
  by (cases q) (simp_all add: positive_matrix_def ncols_def)

lemma sum_list_pos_real:
  fixes xs :: "real list"
  shows "xs \<noteq> [] \<Longrightarrow> \<forall>x\<in>set xs. 0 < x \<Longrightarrow> 0 < sum_list xs"
  by (induction xs) (auto simp: add_pos_nonneg sum_list_nonneg less_imp_le)

lemma sum0_pos:
  assumes "positive_matrix q c" "k < c"
  shows "0 < sum0 q ! k"
proof -
  have nc: "ncols q = c" using assms(1) by (rule ncols_pos)
  have "0 < sum_list (map (\<lambda>row. row ! k) q)"
  proof (rule sum_list_pos_real)
    show "map (\<lambda>row. row ! k) q \<noteq> []" using assms(1) by (simp add: positive_matrix_def)
    show "\<forall>x\<in>set (map (\<lambda>row. row ! k) q). 0 < x"
      using assms by (auto simp: positive_matrix_def list_all_iff)
  qed
  then show ?thesis using assms(2) by (simp add: sum0_def nc)
qed

lemma weight_row_pos:
  assumes "positive_matrix q c" "row \<in> set q"
  shows "0 < sum_list (map (\<lambda>k. (row ! k) ^ 2 / (sum0 q ! k)) [0..<ncols q])"
proof (rule sum_list_pos_real)
  have nc: "ncols q = c" using assms(1) by (rule ncols_pos)
  show "map (\<lambda>k. (row ! k)\<^sup>2 / sum0 q ! k) [0..<ncols q] \<noteq> []"
    using assms(1) by (simp add: nc positive_matrix_def)
  show "\<forall>x\<in>set (map (\<lambda>k. (row ! k)\<^sup>2 / sum0 q ! k) [0..<ncols q]). 0 < x"
  proof
    fix x assume "x \<in> set (map (\<lambda>k. (row ! k)\<^sup>2 / sum0 q ! k) [0..<ncols q])"
    then obtain k where k: "k < c" and x: "x = (row ! k)\<^sup>2 / sum0 q ! k"
      by (auto simp: nc)
    have "0 < row ! k" using assms k by (auto simp: positive_matrix_def list_all_iff)
    moreover have "0 < sum0 q ! k" using assms(1) k by (rule sum0_pos)
    ultimately show "0 < x" unfolding x by simp
  qed
qed

lemma sum_list_divide:
  fixes ws :: "real list"
  shows "sum_list (map (\<lambda>w. w / s) ws) = sum_list ws / s"
  by (induction ws) (simp_all add: add_divide_distrib)

lemma T_rows: "T q = map (\<lambda>row. map (\<lambda>w. w / sum_list row) row) (T_weight q)"
  by (simp add: T_def Let_def sum1_def zip_map2 zip_same_conv_map)

text \<open>
  C4.  For a soft-assignment matrix with at least one row and one column whose entries are
  all positive, the target distribution \<^verbatim>\<open>T(q)\<close> has the shape of \<open>q\<close> and every row of it
  sums to 1 (exactly, over the reals).
\<close>

theorem T_rows_sum_to_one:
  assumes "positive_matrix q c"
  shows "length (T q) = length q \<and> list_all (\<lambda>row. length row = c \<and> sum_list row = 1) (T q)"
proof -
  have nc: "ncols q = c" using assms by (rule ncols_pos)
  have "length r = c \<and> sum_list r = 1" if "r \<in> set (T q)" for r
  proof -
    define w where "w = (\<lambda>row. map (\<lambda>k. (row ! k) ^ 2 / (sum0 q ! k)) [0..<ncols q])"
    from that obtain row where row: "row \<in> set q"
      and r: "r = map (\<lambda>x. x / sum_list (w row)) (w row)"
      by (auto simp: T_rows T_weight_def w_def)
    have pos: "0 < sum_list (w row)"
      unfolding w_def using assms row by (rule weight_row_pos)
    have len: "length r = c" by (simp add: r w_def nc)
    have "sum_list r = sum_list (w row) / sum_list (w row)"
      unfolding r by (rule sum_list_divide)
    with pos len show ?thesis by simp
  qed
  then have rows: "list_all (\<lambda>row. length row = c \<and> sum_list row = 1) (T q)"
    unfolding list_all_iff by blast
  have "length (T q) = length q"
    unfolding T_rows T_weight_def by simp
  with rows show ?thesis by simp
qed

theorem T_rows_sum_to_one_witness:
  "positive_matrix [[1, 1], [1, 3]] 2
   \<and> T [[1, 1], [1, 3]] = [[2 / 3, 1 / 3], [2 / 11, 9 / 11]]
   \<and> list_all (\<lambda>row. length row = 2 \<and> sum_list row = 1) (T [[1, 1], [1, 3]])"
proof -
  have h: "positive_matrix [[1, 1], [1, 3]] 2"
    by (simp add: positive_matrix_def)
  have v: "T [[1, 1], [1, 3]] = [[2 / 3, 1 / 3], [2 / 11, 9 / 11]]"
    by (simp add: T_def T_weight_def sum0_def sum1_def ncols_def Let_def)
  have r: "list_all (\<lambda>row. length row = 2 \<and> sum_list row = 1) (T [[1, 1], [1, 3]])"
    using T_rows_sum_to_one [OF h] by (rule conjunct2)
  from h v r show ?thesis by (intro conjI)
qed


section \<open>Slots of the membership-strength arrays\<close>

lemma cms_body_size:
  "coo_size st n \<Longrightarrow> coo_size (cms_body KI KD sg rh k i st j) n"
  by (cases st) (simp add: cms_body_def coo_size_def Let_def)

lemma cms_body_slot:
  assumes "coo_size st n" "i * k + j < n" "s < n"
  shows "slot (cms_body KI KD sg rh k i st j) s =
         (if s = i * k + j \<and> KI ! i ! j \<noteq> - 1
          then (int i, KI ! i ! j, membership_val KI KD sg rh i j)
          else slot st s)"
  using assms by (cases st) (auto simp: cms_body_def coo_size_def slot_def Let_def)

lemma cms_inner:
  assumes "coo_size st n" "i * k + m \<le> n" "s < n"
  shows "coo_size (foldl (cms_body KI KD sg rh k i) st [0..<m]) n \<and>
         slot (foldl (cms_body KI KD sg rh k i) st [0..<m]) s =
         (if i * k \<le> s \<and> s < i * k + m \<and> KI ! i ! (s - i * k) \<noteq> - 1
          then (int i, KI ! i ! (s - i * k), membership_val KI KD sg rh i (s - i * k))
          else slot st s)"
  using assms(2)
proof (induction m)
  case 0
  show ?case using assms(1) by auto
next
  case (Suc m)
  let ?st = "foldl (cms_body KI KD sg rh k i) st [0..<m]"
  from Suc have IH: "coo_size ?st n"
    "slot ?st s =
         (if i * k \<le> s \<and> s < i * k + m \<and> KI ! i ! (s - i * k) \<noteq> - 1
          then (int i, KI ! i ! (s - i * k), membership_val KI KD sg rh i (s - i * k))
          else slot st s)"
    by simp_all
  have lt: "i * k + m < n" using Suc.prems by simp
  have step: "foldl (cms_body KI KD sg rh k i) st [0..<Suc m] = cms_body KI KD sg rh k i ?st m"
    by simp
  have sz: "coo_size (cms_body KI KD sg rh k i ?st m) n"
    using IH(1) by (rule cms_body_size)
  have sl: "slot (cms_body KI KD sg rh k i ?st m) s =
         (if s = i * k + m \<and> KI ! i ! m \<noteq> - 1
          then (int i, KI ! i ! m, membership_val KI KD sg rh i m)
          else slot ?st s)"
    using IH(1) lt assms(3) by (rule cms_body_slot)
  show ?case
    unfolding step using sz sl IH(2) by (auto simp: less_Suc_eq)
qed

lemma cms_outer:
  assumes "coo_size st (N * k)" "p \<le> N" "s < N * k"
  shows "coo_size (foldl (\<lambda>st i. foldl (cms_body KI KD sg rh k i) st [0..<k]) st [0..<p]) (N * k) \<and>
         slot (foldl (\<lambda>st i. foldl (cms_body KI KD sg rh k i) st [0..<k]) st [0..<p]) s =
         (if s < p * k \<and> KI ! (s div k) ! (s mod k) \<noteq> - 1
          then (int (s div k), KI ! (s div k) ! (s mod k),
                membership_val KI KD sg rh (s div k) (s mod k))
          else slot st s)"
  using assms(2)
proof (induction p)
  case 0
  show ?case using assms(1) by simp
next
  case (Suc p)
  let ?f = "\<lambda>st i. foldl (cms_body KI KD sg rh k i) st [0..<k]"
  let ?st = "foldl ?f st [0..<p]"
  from Suc have IH: "coo_size ?st (N * k)"
    "slot ?st s =
         (if s < p * k \<and> KI ! (s div k) ! (s mod k) \<noteq> - 1
          then (int (s div k), KI ! (s div k) ! (s mod k),
                membership_val KI KD sg rh (s div k) (s mod k))
          else slot st s)"
    by simp_all
  have "Suc p * k \<le> N * k" using Suc.prems by (intro mult_le_mono1)
  then have le: "p * k + k \<le> N * k" by simp
  have step: "foldl ?f st [0..<Suc p] = foldl (cms_body KI KD sg rh k p) ?st [0..<k]"
    by simp
  note inner = cms_inner [OF IH(1) le assms(3), of KI KD sg rh]
  have dm: "s div k = p \<and> s mod k = s - p * k" if "p * k \<le> s" "s < p * k + k"
  proof -
    from that have kpos: "0 < k" by (cases k) auto
    define r where "r = s - p * k"
    have r: "s = p * k + r" "r < k"
      using that by (simp_all add: r_def)
    have "(p * k + r) div k = p" "(p * k + r) mod k = r"
      using kpos r(2) by simp_all
    then show ?thesis using r by simp
  qed
  show ?case
    unfolding step using inner IH(2) dm by (auto simp: not_less)
qed

lemma slot_zeros:
  "s < n \<Longrightarrow> slot (replicate n 0, replicate n 0, replicate n 0) s = (0, 0, 0)"
  by (simp add: slot_def)

text \<open>
  C2.  For every row \<open>i\<close> and neighbor slot \<open>j\<close>, position \<open>i * n_neighbors + j\<close> of the
  three returned arrays holds the edge \<open>(i, knn_indices[i,j])\<close> with strength 0 when the
  neighbor is \<open>i\<close> itself, 1 when \<open>knn_dists[i,j] - rhos[i] \<le> 0\<close>, and
  \<open>exp(-(knn_dists[i,j] - rhos[i]) / sigmas[i])\<close> otherwise; when the neighbor index is the
  sentinel -1 the slot is skipped and keeps its initial zeros.
\<close>

theorem membership_strengths_slots:
  assumes "i < length knn_indices" and "j < ncols knn_indices"
  shows "slot (compute_membership_strengths knn_indices knn_dists sigmas rhos)
           (i * ncols knn_indices + j) =
         (if knn_indices ! i ! j = - 1 then (0, 0, 0)
          else (int i, knn_indices ! i ! j,
                if knn_indices ! i ! j = int i then 0
                else if knn_dists ! i ! j - rhos ! i \<le> 0 then 1
                else exp (- ((knn_dists ! i ! j - rhos ! i) / (sigmas ! i)))))"
proof -
  let ?N = "length knn_indices" and ?k = "ncols knn_indices"
  let ?s = "i * ?k + j"
  let ?init = "(replicate (?N * ?k) 0, replicate (?N * ?k) 0, replicate (?N * ?k) 0) :: coo"
  have "Suc i * ?k \<le> ?N * ?k" using assms(1) by (intro mult_le_mono1) simp
  then have s: "?s < ?N * ?k" using assms(2) by simp
  have sz: "coo_size ?init (?N * ?k)" by (simp add: coo_size_def)
  have dm: "?s div ?k = i" "?s mod ?k = j" using assms(2) by simp_all
  have lt: "?s < ?N * ?k" by (rule s)
  from cms_outer [OF sz order_refl s, of knn_indices knn_dists sigmas rhos]
  have "slot (compute_membership_strengths knn_indices knn_dists sigmas rhos) ?s =
        (if knn_indices ! i ! j \<noteq> - 1
         then (int i, knn_indices ! i ! j, membership_val knn_indices knn_dists sigmas rhos i j)
         else slot ?init ?s)"
    unfolding compute_membership_strengths_def Let_def dm using lt by simp
  then show ?thesis
    using slot_zeros [OF s] by (simp add: membership_val_def)
qed

theorem membership_strengths_slots_witness:
  "(1::nat) < length [[0, 1], [- 1, 0 :: int]] \<and> (1::nat) < ncols [[0, 1], [- 1, 0 :: int]]
   \<and> slot (compute_membership_strengths [[0, 1], [- 1, 0]] [[0, 2], [1, 3]] [1, 1] [2, 1]) 3
       = (1, 0, exp (- 2))
   \<and> slot (compute_membership_strengths [[0, 1], [- 1, 0]] [[0, 2], [1, 3]] [1, 1] [2, 1]) 2
       = (0, 0, 0)"
proof -
  have h1: "(1::nat) < length [[0, 1], [- 1, 0 :: int]]" by simp
  have h2: "(1::nat) < ncols [[0, 1], [- 1, 0 :: int]]" by (simp add: ncols_def)
  have h3: "(0::nat) < ncols [[0, 1], [- 1, 0 :: int]]" by (simp add: ncols_def)
  have k: "ncols [[0, 1], [- 1, 0 :: int]] = 2" by (simp add: ncols_def)
  from membership_strengths_slots [OF h1 h2, of "[[0, 2], [1, 3]]" "[1, 1]" "[2, 1]"]
  have a: "slot (compute_membership_strengths [[0, 1], [- 1, 0]] [[0, 2], [1, 3]] [1, 1] [2, 1]) 3
       = (1, 0, exp (- 2))"
    unfolding k by simp
  from membership_strengths_slots [OF h1 h3, of "[[0, 2], [1, 3]]" "[1, 1]" "[2, 1]"]
  have b: "slot (compute_membership_strengths [[0, 1], [- 1, 0]] [[0, 2], [1, 3]] [1, 1] [2, 1]) 2
       = (0, 0, 0)"
    unfolding k by simp
  from h1 h2 a b show ?thesis by (intro conjI)
qed

section \<open>The bandwidth floor\<close>

lemma sigma_floor_bound:
  "(0 < rho \<longrightarrow> MIN_K_DIST_SCALE * mean ith_distances \<le> sigma_floor ith_distances rho m r)
   \<and> (rho \<le> 0 \<longrightarrow> MIN_K_DIST_SCALE * m \<le> sigma_floor ith_distances rho m r)"
  by (simp add: sigma_floor_def Let_def)

text \<open>
  C7.  For every row \<open>i\<close> of the input of \<^verbatim>\<open>smooth_knn_dist\<close> (a row with at least one
  column), the returned bandwidth is at least 1e-3 times the mean of row \<open>i\<close> when
  \<^verbatim>\<open>rho[i] > 0\<close>, and at least 1e-3 times the mean of all distances otherwise, in particular
  when \<^verbatim>\<open>rho[i] == 0\<close>.
\<close>

theorem smooth_knn_dist_sigma_floor:
  assumes "i < length distances" and "distances ! i \<noteq> []"
  shows "(0 < snd (smooth_knn_dist distances k n_iter local_connectivity bandwidth) ! i \<longrightarrow>
            0.001 * mean (distances ! i)
            \<le> fst (smooth_knn_dist distances k n_iter local_connectivity bandwidth) ! i)
       \<and> (snd (smooth_knn_dist distances k n_iter local_connectivity bandwidth) ! i \<le> 0 \<longrightarrow>
            0.001 * mean2 distances
            \<le> fst (smooth_knn_dist distances k n_iter local_connectivity bandwidth) ! i)"
  using assms(1) sigma_floor_bound
  by (simp add: smooth_knn_dist_def smooth_knn_row_def Let_def MIN_K_DIST_SCALE_def)

lemma rho_of_example: "rho_of [0, 1, 2] 1 = 1"
  by (simp add: rho_of_def Let_def SMOOTH_K_TOLERANCE_def)

theorem smooth_knn_dist_sigma_floor_witness:
  "(0::nat) < length [[0, 1, 2 :: real]] \<and> [[0, 1, 2 :: real]] ! 0 \<noteq> []
   \<and> snd (smooth_knn_dist [[0, 1, 2]] 3 64 1 1) ! 0 = 1
   \<and> 0.001 * mean [0, 1, 2] \<le> fst (smooth_knn_dist [[0, 1, 2]] 3 64 1 1) ! 0"
proof -
  have h1: "(0::nat) < length [[0, 1, 2 :: real]]" by simp
  have h2: "[[0, 1, 2 :: real]] ! 0 \<noteq> []" by simp
  have r: "snd (smooth_knn_dist [[0, 1, 2]] 3 64 1 1) ! 0 = 1"
    by (simp add: smooth_knn_dist_def smooth_knn_row_def Let_def rho_of_example)
  from smooth_knn_dist_sigma_floor [OF h1 h2, of 3 64 1 1]
  have "0.001 * mean ([[0, 1, 2]] ! 0) \<le> fst (smooth_knn_dist [[0, 1, 2]] 3 64 1 1) ! 0"
    unfolding r by simp
  then have s: "0.001 * mean [0, 1, 2] \<le> fst (smooth_knn_dist [[0, 1, 2]] 3 64 1 1) ! 0"
    by simp
  from h1 h2 r s show ?thesis by (intro conjI)
qed

section \<open>Schedule of an all-zero weight vector\<close>

lemma make_epochs_per_sample_empty: "make_epochs_per_sample [] n_epochs = Inl ValueError"
  by (simp add: make_epochs_per_sample_def)

lemma all_zero_max:
  fixes weights :: "real list"
  assumes "weights \<noteq> []" and "\<forall>w\<in>set weights. w = 0"
  shows "Max (set weights) = 0"
proof -
  from assms have "set weights = {0}" by (cases weights) auto
  then show ?thesis by simp
qed

lemma edge_schedule_always:
  "epoch_of_next_sample \<le> 0 \<Longrightarrow> epochs_per_sample \<le> 0 \<Longrightarrow>
   edge_schedule epochs_per_sample epoch_of_next_sample ns = ns"
  by (induction ns arbitrary: epoch_of_next_sample) (simp_all add: add_nonpos_nonpos)

text \<open>
  An edge whose schedule value is -1.0 is sampled in every epoch; one whose value is 2.0 in
  every second epoch.
\<close>

lemma sampled_epochs_minus_one: "sampled_epochs (- 1) n_epochs = [0..<n_epochs]"
  unfolding sampled_epochs_def by (rule edge_schedule_always) simp_all

lemma sampled_epochs_two: "sampled_epochs 2 6 = [2, 4]"
  by (simp add: sampled_epochs_def upt_conv_Cons)

text \<open>
  C6 does not hold as stated.  For the all-zero vector \<open>[0, 0, 0]\<close> the division is not
  guarded (the quotient by the maximum is NaN) and every edge receives -1.0, but that value
  is no never-sampled sentinel: the edge is sampled in each of three epochs.  For the empty
  vector the call raises \<^verbatim>\<open>ValueError\<close>.
\<close>

theorem all_zero_weights_counterexample:
  "np_div 0 (Max (set [0, 0, 0])) = NaN
   \<and> make_epochs_per_sample [0, 0, 0] 500 = Inr [- 1, - 1, - 1]
   \<and> sampled_epochs (- 1) 3 = [0, 1, 2]
   \<and> make_epochs_per_sample [] 500 = Inl ValueError"
  by (simp add: np_div_def make_epochs_per_sample_def epochs_entry_def Let_def
      sampled_epochs_def upt_conv_Cons)

text \<open>
  C6, as amended.  When every entry of the weight vector passed to
  \<^verbatim>\<open>make_epochs_per_sample\<close> is zero, the call raises \<^verbatim>\<open>ValueError\<close> if the vector is
  empty; otherwise it raises nothing and every edge receives the value -1.0 (the quotient
  0/0 is NaN, which the mask \<^verbatim>\<open>n_samples > 0\<close> does not select).
\<close>

theorem all_zero_weights_schedule:
  assumes "\<forall>w\<in>set weights. w = 0"
  shows "make_epochs_per_sample weights n_epochs =
         (if weights = [] then Inl ValueError
          else Inr (replicate (length weights) (- 1)))"
proof (cases "weights = []")
  case True
  then show ?thesis by (simp add: make_epochs_per_sample_def)
next
  case False
  have m: "Max (set weights) = 0" using False assms by (rule all_zero_max)
  have "map (epochs_entry n_epochs)
          (map (\<lambda>w. np_scale (real_of_int n_epochs) (np_div w 0)) weights)
        = map (\<lambda>w. - 1) weights"
    using assms by (auto simp: np_div_def epochs_entry_def)
  also have "\<dots> = replicate (length weights) (- 1)"
    by (simp add: map_replicate_const)
  finally show ?thesis
    using False by (simp add: make_epochs_per_sample_def Let_def m)
qed

theorem all_zero_weights_schedule_witness:
  "list_all (\<lambda>w. w = 0) [0, 0, 0 :: real]
   \<and> make_epochs_per_sample [0, 0, 0] 500 = Inr [- 1, - 1, - 1]"
proof -
  have h: "\<forall>w\<in>set [0, 0, 0 :: real]. w = 0" by simp
  from all_zero_weights_schedule [OF h, of 500]
  have "make_epochs_per_sample [0, 0, 0] 500 = Inr [- 1, - 1, - 1]"
    by (simp add: numeral_3_eq_3)
  then show ?thesis by simp
qed

section \<open>Symmetry of the fuzzy graph\<close>

lemma entry_absent: "p \<notin> fst ` set m \<Longrightarrow> entry m p = 0"
  by (induction m) (auto simp: entry_def)

lemma entry_distinct_build:
  "distinct qs \<Longrightarrow> entry (map (\<lambda>p. (p, f p)) qs) p = (if p \<in> set qs then f p else 0)"
  by (induction qs) (auto simp: entry_def)

lemma entry_build: "entry (sp_build ps f) p = (if p \<in> set ps then f p else 0)"
  unfolding sp_build_def using entry_distinct_build [of "remdups ps" f p] by simp

lemma entry_eliminate_zeros: "entry (eliminate_zeros m) p = entry m p"
  by (induction m) (auto simp: entry_def eliminate_zeros_def)

lemma entry_transpose: "entry (sp_transpose m) (i, j) = entry m (j, i)"
  by (induction m) (auto simp: entry_def sp_transpose_def)

lemma entry_multiply: "entry (sp_multiply a b) p = entry a p * entry b p"
  using entry_absent [of p a] by (auto simp: sp_multiply_def entry_build)

lemma entry_add: "entry (sp_add a b) p = entry a p + entry b p"
  using entry_absent [of p a] entry_absent [of p b] by (auto simp: sp_add_def entry_build)

lemma entry_sub: "entry (sp_sub a b) p = entry a p - entry b p"
  using entry_absent [of p a] entry_absent [of p b] by (auto simp: sp_sub_def entry_build)

lemma entry_scale: "entry (sp_scale c m) p = c * entry m p"
  using entry_absent [of p m] by (auto simp: sp_scale_def entry_build)

lemma fuzzy_union_entry:
  "entry (eliminate_zeros
            (sp_add (sp_scale r (sp_sub (sp_add A (sp_transpose A))
                                   (sp_multiply A (sp_transpose A))))
                    (sp_scale (1 - r) (sp_multiply A (sp_transpose A))))) (i, j) =
   r * (entry A (i, j) + entry A (j, i) - entry A (i, j) * entry A (j, i))
   + (1 - r) * (entry A (i, j) * entry A (j, i))"
  by (simp only: entry_eliminate_zeros entry_add entry_scale entry_sub entry_multiply
      entry_transpose)

lemma eliminate_zeros_stored: "e \<in> set (eliminate_zeros m) \<Longrightarrow> snd e \<noteq> 0"
  by (simp add: eliminate_zeros_def)

text \<open>
  C3.  For every knn input and every mix ratio, the graph returned by
  \<^verbatim>\<open>fuzzy_simplicial_set\<close> equals its own transpose: the entry at \<open>(i, j)\<close> is the entry at
  \<open>(j, i)\<close> (exactly, over the reals).
\<close>

theorem fuzzy_simplicial_set_symmetric:
  "entry (sp_transpose
            (fuzzy_simplicial_set n_neighbors knn_indices knn_dists set_op_mix_ratio
               local_connectivity)) (i, j) =
   entry (fuzzy_simplicial_set n_neighbors knn_indices knn_dists set_op_mix_ratio
            local_connectivity) (i, j)"
proof -
  obtain sigmas rhos where s:
    "smooth_knn_dist knn_dists (real n_neighbors) 64 local_connectivity 1.0 = (sigmas, rhos)"
    by (cases "smooth_knn_dist knn_dists (real n_neighbors) 64 local_connectivity 1.0")
  obtain rows cols vals where c:
    "compute_membership_strengths knn_indices knn_dists sigmas rhos = (rows, cols, vals)"
    by (cases "compute_membership_strengths knn_indices knn_dists sigmas rhos")
  define A where "A = eliminate_zeros (coo_matrix vals rows cols)"
  have G: "fuzzy_simplicial_set n_neighbors knn_indices knn_dists set_op_mix_ratio
             local_connectivity =
           eliminate_zeros
            (sp_add (sp_scale set_op_mix_ratio (sp_sub (sp_add A (sp_transpose A))
                                   (sp_multiply A (sp_transpose A))))
                    (sp_scale (1 - set_op_mix_ratio) (sp_multiply A (sp_transpose A))))"
    using s c by (simp add: fuzzy_simplicial_set_def Let_def A_def)
  show ?thesis
    unfolding entry_transpose G fuzzy_union_entry by (simp add: algebra_simps)
qed

text \<open>
  An example: three points whose single neighbor forms the directed cycle 0, 1, 2.  The
  returned graph has the edge in both directions.
\<close>

lemma smooth_knn_dist_cycle:
  "smooth_knn_dist [[2], [2], [2]] 1 64 1 1 = ([1, 1, 1], [2, 2, 2])"
  by (simp add: smooth_knn_dist_def smooth_knn_row_def Let_def rho_of_def psum_of_def
      SMOOTH_K_TOLERANCE_def MIN_K_DIST_SCALE_def sigma_floor_def mean_def mean2_def
      eval_nat_numeral)

lemma membership_strengths_cycle:
  "compute_membership_strengths [[1], [2], [0]] [[2], [2], [2]] [1, 1, 1] [2, 2, 2]
   = ([0, 1, 2], [1, 2, 0], [1, 1, 1])"
  by (simp add: compute_membership_strengths_def Let_def ncols_def cms_body_def
      membership_val_def eval_nat_numeral)

lemma fuzzy_simplicial_set_cycle:
  "entry (fuzzy_simplicial_set 1 [[1], [2], [0]] [[2], [2], [2]] 1 1) (0, 1) = 1
   \<and> entry (fuzzy_simplicial_set 1 [[1], [2], [0]] [[2], [2], [2]] 1 1) (1, 0) = 1
   \<and> entry (fuzzy_simplicial_set 1 [[1], [2], [0]] [[2], [2], [2]] 1 1) (0, 0) = 0"
  unfolding fuzzy_simplicial_set_def
  apply (simp add: smooth_knn_dist_cycle membership_strengths_cycle)
  apply (simp add: Let_def coo_matrix_def eliminate_zeros_def sp_transpose_def)
  apply (simp add: sp_multiply_def sp_add_def sp_sub_def sp_scale_def sp_build_def
      entry_def)
  done

section \<open>Fitting and transforming\<close>

lemma validate_ok_facts:
  assumes "validate_parameters s = Inr ()"
  shows "2 \<le> self_n_neighbors s \<and> (\<exists>n. self_n_components s = PyInt n \<and> 1 \<le> n)"
proof -
  from assms have a: "\<not> self_n_neighbors s < 2" "is_int (self_n_components s)"
    "\<not> num_val (self_n_components s) < 1"
    by (simp_all add: validate_parameters_def split: if_splits)
  from a(2,3) have "\<exists>n. self_n_components s = PyInt n \<and> 1 \<le> n"
    by (cases "self_n_components s") auto
  with a(1) show ?thesis by simp
qed

lemma fit_validated_single:
  assumes "validate_parameters (s\<lparr>self__initial_alpha := Some (self_learning_rate s)\<rparr>) = Inr ()"
    and "shape0 X = 1"
  shows "\<exists>n. self_n_components s = PyInt n \<and> 1 \<le> n \<and>
           fit_validated ext s X y =
             Inr (s\<lparr>self__initial_alpha := Some (self_learning_rate s),
                     self_embedding := Some [replicate (nat n) 0]\<rparr>)"
proof -
  from validate_ok_facts [OF assms(1)] obtain n where
    nn: "2 \<le> self_n_neighbors s" and n: "self_n_components s = PyInt n" "1 \<le> n"
    by auto
  have "fit_validated ext s X y =
             Inr (s\<lparr>self__initial_alpha := Some (self_learning_rate s),
                     self_embedding := Some [replicate (nat n) 0]\<rparr>)"
    using assms nn n by (simp add: fit_validated_def Let_def zeros_def)
  with n show ?thesis by blast
qed

lemma validate_parameters_fit_fields:
  "validate_parameters (s\<lparr>self__raw_data := r, self__a := p, self__b := q\<rparr>
                          \<lparr>self__initial_alpha := al\<rparr>)
   = validate_parameters (s\<lparr>self__initial_alpha := al\<rparr>)"
  by (cases "self_init s") (simp_all add: validate_parameters_def)

text \<open>
  C9.  When the configuration passes \<^verbatim>\<open>_validate_parameters\<close> and the collaborators
  called before the data-size test succeed, \<^verbatim>\<open>fit\<close> on data with exactly one sample
  returns without an error, and the fitted embedding is the all-zero array with one row and
  \<^verbatim>\<open>n_components\<close> columns.
\<close>

theorem fit_single_sample:
  assumes chk: "check_array ext X0 = Inr X" and one: "shape0 X = 1"
    and ab: "self_a self = None \<or> self_b self = None \<Longrightarrow>
             \<exists>p. find_ab_params ext (self_spread self) (self_min_dist self) = Inr p"
    and ini: "\<And>m. self_init self = InitArray m \<Longrightarrow> \<exists>m'. check_init ext m = Inr m'"
    and valid: "validate_parameters
                  (self\<lparr>self__initial_alpha := Some (self_learning_rate self)\<rparr>) = Inr ()"
  shows "\<exists>fitted n. fit ext self X0 y = Inr fitted \<and> self_n_components self = PyInt n
           \<and> 1 \<le> n \<and> self_embedding fitted = Some [replicate (nat n) 0]"
proof -
  obtain a' b' where p:
    "(if self_a self = None \<or> self_b self = None
      then find_ab_params ext (self_spread self) (self_min_dist self)
      else Inr (the (self_a self), the (self_b self))) = Inr (a', b')"
    using ab by (cases "self_a self = None \<or> self_b self = None") auto
  let ?s = "self\<lparr>self__raw_data := Some X, self__a := Some a', self__b := Some b'\<rparr>"
  have v: "validate_parameters (?s\<lparr>self__initial_alpha := Some (self_learning_rate ?s)\<rparr>)
           = Inr ()"
    using valid by (simp add: validate_parameters_fit_fields)
  from fit_validated_single [OF v one, of ext y] obtain n where
    n: "self_n_components self = PyInt n" "1 \<le> n" and
    f: "fit_validated ext ?s X y =
          Inr (?s\<lparr>self__initial_alpha := Some (self_learning_rate ?s),
                   self_embedding := Some [replicate (nat n) 0]\<rparr>)"
    by auto
  have "fit ext self X0 y = fit_validated ext ?s X y"
  proof (cases "self_a self = None \<or> self_b self = None")
    case True
    with p have fp: "find_ab_params ext (self_spread self) (self_min_dist self) = Inr (a', b')"
      by simp
    show ?thesis
      using ini True fp by (cases "self_init self") (auto simp: fit_def chk Let_def)
  next
    case False
    with p have fp: "a' = the (self_a self)" "b' = the (self_b self)"
      by simp_all
    show ?thesis
      using ini False fp by (cases "self_init self") (auto simp: fit_def chk Let_def)
  qed
  with f n show ?thesis by auto
qed

lemma example_valid:
  "validate_parameters
     (example_estimator\<lparr>self__initial_alpha := Some (self_learning_rate example_estimator)\<rparr>)
   = Inr ()"
  by (simp add: validate_parameters_def example_estimator_def)

theorem fit_single_sample_witness:
  "check_array example_ext (Dense [[7]]) = Inr (Dense [[7]]) \<and> shape0 (Dense [[7]]) = 1
   \<and> (\<exists>fitted. fit example_ext example_estimator (Dense [[7]]) None = Inr fitted
         \<and> self_embedding fitted = Some [[0, 0]])"
proof -
  have h1: "check_array example_ext (Dense [[7]]) = Inr (Dense [[7]])"
    by (simp add: example_ext_def)
  have h2: "shape0 (Dense [[7]]) = 1" by simp
  have h3: "\<exists>p. find_ab_params example_ext (self_spread example_estimator)
                 (self_min_dist example_estimator) = Inr p"
    by (rule exI [of _ "(1.577, 0.895)"]) (simp add: example_ext_def)
  have h4: "\<exists>m'. check_init example_ext m = Inr m'" for m
    by (simp add: example_ext_def)
  from fit_single_sample [OF h1 h2 h3 h4 example_valid, of None]
  obtain fitted n where
    "fit example_ext example_estimator (Dense [[7]]) None = Inr fitted"
    "self_n_components example_estimator = PyInt n"
    "self_embedding fitted = Some [replicate (nat n) 0]"
    by blast
  then have "fit example_ext example_estimator (Dense [[7]]) None = Inr fitted
             \<and> self_embedding fitted = Some [[0, 0]]"
    by (simp add: example_estimator_def numeral_2_eq_2)
  with h1 h2 show ?thesis by blast
qed

lemma fit_graph_embedding_stores:
  assumes "fit_graph_embedding ext s X y = Inr fitted"
  shows "self__input_hash fitted = Some (joblib_hash ext X)
         \<and> (\<exists>E. self_embedding fitted = Some E)"
  using assms
  by (auto simp: fit_graph_embedding_def Let_def split: if_splits sum.splits prod.splits)

lemma fit_validated_stores:
  assumes "fit_validated ext s X y = Inr fitted" and "shape0 X \<noteq> 1"
  shows "self__input_hash fitted = Some (joblib_hash ext X)
         \<and> (\<exists>E. self_embedding fitted = Some E)"
  using assms fit_graph_embedding_stores
  by (auto simp: fit_validated_def Let_def split: if_splits sum.splits)

lemma fit_stores:
  assumes "fit ext self X0 y = Inr fitted" and "check_array ext X0 = Inr X"
    and "shape0 X \<noteq> 1"
  shows "self__input_hash fitted = Some (joblib_hash ext X)
         \<and> (\<exists>E. self_embedding fitted = Some E)"
proof -
  from assms(1,2) obtain s where "fit_validated ext s X y = Inr fitted"
    by (auto simp: fit_def Let_def split: sum.splits prod.splits init_arg.splits if_splits)
  then show ?thesis using assms(3) by (rule fit_validated_stores)
qed

text \<open>
  C10.  After a \<^verbatim>\<open>fit\<close> on more than one sample (the embedding having one row per
  sample), \<^verbatim>\<open>transform\<close> of an array whose hash equals the hash of the fitted array
  returns the stored embedding; neither the neighbor search nor the optimizer is reached.
\<close>

theorem transform_fitted_input:
  assumes "fit ext self X0 y = Inr fitted" and "check_array ext X0 = Inr X"
    and "1 < shape0 X"
    and "self_embedding fitted = Some E" and "length E = shape0 X"
    and "check_array ext X1 = Inr X'" and "joblib_hash ext X' = joblib_hash ext X"
  shows "transform ext fitted X1 = Inr (Embedding E)"
proof -
  from assms(3) have "shape0 X \<noteq> 1" by simp
  from fit_stores [OF assms(1,2) this]
  have h: "self__input_hash fitted = Some (joblib_hash ext X)" by simp
  from assms(3,5) have "length E \<noteq> 1" by simp
  then show ?thesis
    by (simp add: transform_def assms(4,6,7) h)
qed

lemma example_fit:
  "fit example_ext example_estimator (Dense [[0], [1], [3]]) None = Inr example_fitted"
  by (simp add: fit_def fit_validated_def fit_graph_embedding_def validate_parameters_def
      example_ext_def example_estimator_def example_fitted_def example_hash_def Let_def)

theorem transform_fitted_input_witness:
  "fit example_ext example_estimator (Dense [[0], [1], [3]]) None = Inr example_fitted
   \<and> check_array example_ext (Dense [[0], [1], [3]]) = Inr (Dense [[0], [1], [3]])
   \<and> 1 < shape0 (Dense [[0], [1], [3]])
   \<and> self_embedding example_fitted = Some [[0, 0], [1, 1], [3, 3]]
   \<and> transform example_ext example_fitted (Dense [[0], [1], [3]])
       = Inr (Embedding [[0, 0], [1, 1], [3, 3]])"
proof -
  have h2: "check_array example_ext (Dense [[0], [1], [3]]) = Inr (Dense [[0], [1], [3]])"
    by (simp add: example_ext_def)
  have h3: "1 < shape0 (Dense [[0], [1], [3]])" by simp
  have h4: "self_embedding example_fitted = Some [[0, 0], [1, 1], [3, 3]]"
    by (simp add: example_fitted_def)
  have h5: "length [[0, 0], [1, 1], [3, 3 :: real]] = shape0 (Dense [[0], [1], [3]])"
    by simp
  have h7: "joblib_hash example_ext (Dense [[0], [1], [3]])
            = joblib_hash example_ext (Dense [[0], [1], [3]])" ..
  note t = transform_fitted_input [OF example_fit h2 h3 h4 h5 h2 h7]
  from example_fit h2 h3 h4 t show ?thesis by (intro conjI)
qed

text \<open>
  The call in \<^verbatim>\<open>transform\<close> binds the first thirteen parameters and \<^verbatim>\<open>verbose\<close>; the
  required parameter \<^verbatim>\<open>rng_state\<close> stays unbound.
\<close>

lemma bind_optimize_layout:
  "bind_arguments optimize_layout_params 13 [''verbose''] = Inl TypeError"
  by (simp add: bind_arguments_def optimize_layout_params_def Let_def)

text \<open>
  The call in \<^verbatim>\<open>simplicial_set_embedding\<close>, with seventeen positional arguments and the
  keyword \<^verbatim>\<open>verbose\<close>, binds every parameter.
\<close>

lemma bind_optimize_layout_fit:
  "bind_arguments optimize_layout_params 17 [''verbose''] = Inr ()"
  by (simp add: bind_arguments_def optimize_layout_params_def Let_def)

lemma transform_new_never_returns: "transform_new ext self fitted X0 \<noteq> Inr r"
  by (simp add: transform_new_def bind_optimize_layout Let_def
      split: sum.splits option.splits prod.splits)

lemma transform_returns_stored_only:
  assumes "transform ext self X0 = Inr r"
  shows "\<exists>fitted X. self_embedding self = Some fitted \<and> r = Embedding fitted
           \<and> check_array ext X0 = Inr X \<and> self__input_hash self = Some (joblib_hash ext X)"
  using assms transform_new_never_returns
  by (auto simp: transform_def split: option.splits if_splits sum.splits)

lemma example_rhos: "snd (smooth_knn_dist [[0]] 2 64 0 1) = [0]"
  by (simp add: smooth_knn_dist_def smooth_knn_row_def Let_def rho_of_def)

lemma example_strengths:
  "compute_membership_strengths [[1]] [[0]] sigmas [0] = ([0], [1], [1])"
  by (simp add: compute_membership_strengths_def Let_def ncols_def cms_body_def
      membership_val_def)

lemma example_schedule: "make_epochs_per_sample [1] 100 = Inr [1]"
  by (simp add: make_epochs_per_sample_def Let_def np_div_def epochs_entry_def)

lemma example_transform_new:
  "transform_new example_ext example_fitted [[0, 0], [1, 1], [3, 3]] (Dense [[7]])
   = Inl TypeError"
proof -
  obtain sigmas where s: "smooth_knn_dist [[0]] 2 64 0 1 = (sigmas, [0])"
    using example_rhos by (cases "smooth_knn_dist [[0]] 2 64 0 1") auto
  show ?thesis
    unfolding transform_new_def
    by (simp add: example_ext_def example_fitted_def example_estimator_def
        transform_n_epochs_def s example_strengths example_schedule bind_optimize_layout
        np_div_def Let_def)
qed

text \<open>
  C1.  On a model fitted on three samples with a dense input and the euclidean metric,
  \<^verbatim>\<open>transform\<close> of a new sample does not return an embedding: the call of
  \<^verbatim>\<open>optimize_layout\<close> leaves the parameter \<^verbatim>\<open>rng_state\<close> unbound and raises
  \<^verbatim>\<open>TypeError\<close>.
\<close>

theorem transform_new_data_raises:
  "transform example_ext example_fitted (Dense [[7]]) = Inl TypeError"
  using example_transform_new
  by (simp add: transform_def example_fitted_def example_estimator_def example_ext_def
      example_hash_def)

end
